theory Spec2Isabelle
  imports Complex_Main "HOL-Library.Log_Nat"
begin

section \<open>Array elements\<close>

text \<open>
  The elements of the numpy arrays of \<open>stackedpg.py\<close> are IEEE doubles. A value is an
  exact rational or one of the three special values that numpy produces where Python
  itself would raise: \<open>PInf\<close>, \<open>NInf\<close> and \<open>NaN\<close>. The operations \<open>+\<close>, \<open>-\<close>, \<open>*\<close> and
  \<open>/\<close> of this type are exact on finite values and follow the IEEE table on the special
  ones; they do not round and do not overflow. Rounding to the nearest double is the
  function \<open>round_fl\<close> of the section on double precision, and the run is given twice:
  with the exact operations (\<open>run_loop\<close>, \<open>calcStacked\<close>) and with the operations as a
  parameter (\<open>run_loop_in\<close>, \<open>calcStacked_in\<close>), of which the rounding operations are one
  instance. The sign of a zero is not kept, so a division of a nonzero finite value by
  zero takes the sign of the numerator. Equality is HOL equality: \<open>NaN = NaN\<close> holds here.
\<close>

datatype fl = Fin rat | PInf | NInf | NaN

definition signed_inf :: "rat \<Rightarrow> fl" where
  "signed_inf q = (if q = 0 then NaN else if 0 < q then PInf else NInf)"

fun is_finite :: "fl \<Rightarrow> bool" where
  "is_finite (Fin q) = True"
| "is_finite _ = False"

instantiation fl :: "{comm_monoid_add, comm_monoid_mult, uminus, divide}"
begin

definition zero_fl :: fl where "zero_fl = Fin 0"

definition one_fl :: fl where "one_fl = Fin 1"

fun plus_fl :: "fl \<Rightarrow> fl \<Rightarrow> fl" where
  "plus_fl (Fin a) (Fin b) = Fin (a + b)"
| "plus_fl NaN _ = NaN"
| "plus_fl _ NaN = NaN"
| "plus_fl PInf NInf = NaN"
| "plus_fl NInf PInf = NaN"
| "plus_fl PInf _ = PInf"
| "plus_fl _ PInf = PInf"
| "plus_fl NInf _ = NInf"
| "plus_fl _ NInf = NInf"

fun uminus_fl :: "fl \<Rightarrow> fl" where
  "uminus_fl (Fin a) = Fin (- a)"
| "uminus_fl PInf = NInf"
| "uminus_fl NInf = PInf"
| "uminus_fl NaN = NaN"

fun times_fl :: "fl \<Rightarrow> fl \<Rightarrow> fl" where
  "times_fl (Fin a) (Fin b) = Fin (a * b)"
| "times_fl NaN _ = NaN"
| "times_fl _ NaN = NaN"
| "times_fl PInf (Fin b) = signed_inf b"
| "times_fl (Fin a) PInf = signed_inf a"
| "times_fl NInf (Fin b) = signed_inf (- b)"
| "times_fl (Fin a) NInf = signed_inf (- a)"
| "times_fl PInf PInf = PInf"
| "times_fl NInf NInf = PInf"
| "times_fl PInf NInf = NInf"
| "times_fl NInf PInf = NInf"

fun divide_fl :: "fl \<Rightarrow> fl \<Rightarrow> fl" where
  "divide_fl (Fin a) (Fin b) = (if b = 0 then signed_inf a else Fin (a / b))"
| "divide_fl NaN _ = NaN"
| "divide_fl _ NaN = NaN"
| "divide_fl (Fin a) PInf = Fin 0"
| "divide_fl (Fin a) NInf = Fin 0"
| "divide_fl PInf (Fin b) = (if b < 0 then NInf else PInf)"
| "divide_fl NInf (Fin b) = (if b < 0 then PInf else NInf)"
| "divide_fl PInf PInf = NaN"
| "divide_fl PInf NInf = NaN"
| "divide_fl NInf PInf = NaN"
| "divide_fl NInf NInf = NaN"

instance
proof
  fix u v w :: fl
  show "u * v = v * u"
    by (cases u; cases v) (simp_all add: mult.commute)
  show "u + v = v + u"
    by (cases u; cases v) simp_all
  show "1 * u = u"
    by (cases u) (simp_all add: one_fl_def signed_inf_def)
  show "0 + u = u"
    by (cases u) (simp_all add: zero_fl_def)
  show "u + v + w = u + (v + w)"
    by (cases u; cases v; cases w) simp_all
  show "u * v * w = u * (v * w)"
    by (cases u; cases v; cases w)
       (auto simp: signed_inf_def zero_less_mult_iff mult_less_0_iff not_less
          order.order_iff_strict)
qed

end

instantiation fl :: "{minus, inverse}"
begin

definition minus_fl :: "fl \<Rightarrow> fl \<Rightarrow> fl" where
  "minus_fl a b = a + (- b)"

definition inverse_fl :: "fl \<Rightarrow> fl" where
  "inverse_fl a = Fin 1 div a"

instance ..

end

section \<open>Exceptions and arrays\<close>

text \<open>
  The exceptions the loop body and the final lines can raise. \<open>LoadFailure c m\<close> is
  whatever \<open>np.genfromtxt\<close> raised, with its class name and its message; the other three
  are raised by numpy's indexing, broadcasting and by arithmetic on \<open>None\<close>.
\<close>

datatype exn = LoadFailure string string | IndexError | ValueError | TypeError

fun exn_class :: "exn \<Rightarrow> string" where
  "exn_class (LoadFailure c m) = c"
| "exn_class IndexError = ''IndexError''"
| "exn_class ValueError = ''ValueError''"
| "exn_class TypeError = ''TypeError''"

text \<open>
  What \<open>np.genfromtxt\<close> returns: an array of dimension 0, 1 or 2 (a 2-d array is the
  list of its rows).
\<close>

datatype ndarray = Arr0 fl | Arr1 "fl list" | Arr2 "fl list list"

text \<open>
  One entry of \<open>pg_files\<close>: the file name together with the outcome of
  \<open>np.genfromtxt\<close> on it (line 84), an exception or an array.
\<close>

type_synonym pg_file = "string \<times> (exn + ndarray)"

text \<open>\<open>new_pg[:, k]\<close>: only a 2-d array with more than \<open>k\<close> columns has such a column.\<close>

fun column :: "ndarray \<Rightarrow> nat \<Rightarrow> exn + fl list" where
  "column (Arr2 rows) k =
     (if list_all (\<lambda>r. k < length r) rows then Inr (map (\<lambda>r. r ! k) rows)
      else Inl IndexError)"
| "column _ k = Inl IndexError"

text \<open>
  An elementwise binary operation on two 1-d arrays, with numpy's broadcasting: equal
  lengths combine index by index, an array of length one is stretched over the other,
  and any other pair of lengths raises \<open>ValueError\<close>.
\<close>

definition np_binop :: "(fl \<Rightarrow> fl \<Rightarrow> fl) \<Rightarrow> fl list \<Rightarrow> fl list \<Rightarrow> exn + fl list" where
  "np_binop f xs ys =
     (if length xs = length ys then Inr (map2 f xs ys)
      else if length xs = 1 then Inr (map (f (hd xs)) ys)
      else if length ys = 1 then Inr (map (\<lambda>x. f x (hd ys)) xs)
      else Inl ValueError)"

definition np_mul :: "fl list \<Rightarrow> fl list \<Rightarrow> exn + fl list" where
  "np_mul = np_binop (*)"

definition np_add :: "fl list \<Rightarrow> fl list \<Rightarrow> exn + fl list" where
  "np_add = np_binop (+)"

text \<open>\<open>np.diff(x)\<close> is \<open>x[1:] - x[:-1]\<close>.\<close>

definition diff :: "fl list \<Rightarrow> fl list" where
  "diff x = map2 (-) (tl x) (butlast x)"

text \<open>\<open>y[1:] + y[:-1]\<close>, the sums of neighbouring samples.\<close>

definition pair_sums :: "fl list \<Rightarrow> fl list" where
  "pair_sums y = map2 (+) (tl y) (butlast y)"

text \<open>
  \<open>np.trapz(y=y, x=x)\<close> for 1-d arrays:
  \<open>(diff(x) * (y[1:] + y[:-1]) / 2.0).sum()\<close>. The product broadcasts, so it raises
  when the two lengths disagree and neither is one.
\<close>

definition trapz :: "fl list \<Rightarrow> fl list \<Rightarrow> exn + fl" where
  "trapz y x =
     (case np_mul (diff x) (pair_sums y) of
        Inl e \<Rightarrow> Inl e
      | Inr ds \<Rightarrow> Inr (sum_list (map (\<lambda>v. v / Fin 2) ds)))"

text \<open>
  The call of lines 97 and 98, where either argument may still be \<open>None\<close>: with
  \<open>y = None\<close> numpy builds a 0-d array and fails on \<open>slice1[axis] = ...\<close> with an
  \<open>IndexError\<close>; with \<open>x = None\<close> the spacing is the default \<open>dx = 1.0\<close>.
\<close>

fun trapz_opt :: "fl list option \<Rightarrow> fl list option \<Rightarrow> exn + fl" where
  "trapz_opt None x = Inl IndexError"
| "trapz_opt (Some y) None = Inr (sum_list (map (\<lambda>v. (Fin 1 * v) / Fin 2) (pair_sums y)))"
| "trapz_opt (Some y) (Some x) = trapz y x"

section \<open>The aggregation run\<close>

text \<open>
  The locals \<open>frecs\<close>, \<open>stacked_and\<close>, \<open>stacked_or\<close> of \<open>_calcStacked\<close> and the attribute
  \<open>self.error_files\<close>. An entry of \<open>error_files\<close> holds the exception \<open>e\<close> where the
  source stores \<open>str(e)\<close>.
\<close>

record run_state =
  frecs :: "fl list option"
  stacked_and :: "fl list option"
  stacked_or :: "fl list option"
  error_files :: "(string \<times> exn) list"

definition init_state :: run_state where
  "init_state = \<lparr>frecs = None, stacked_and = None, stacked_or = None, error_files = []\<rparr>"

text \<open>
  Line 86: the power column divided by its trapezoidal integral over the frequency
  column. The result is the pair of columns 0 and 1 of \<open>new_pg\<close> after the assignment.
  The division is numpy's: it never raises.
\<close>

definition normalize_pg :: "ndarray \<Rightarrow> exn + (fl list \<times> fl list)" where
  "normalize_pg new_pg =
     (case column new_pg 1 of
        Inl e \<Rightarrow> Inl e
      | Inr y \<Rightarrow>
          (case column new_pg 0 of
             Inl e \<Rightarrow> Inl e
           | Inr x \<Rightarrow>
               (case trapz y x of
                  Inl e \<Rightarrow> Inl e
                | Inr t \<Rightarrow> Inr (x, map (\<lambda>v. v / t) y))))"

text \<open>
  Lines 87 to 93. The result is the state reached together with the exception raised,
  if any: line 92 assigns \<open>stacked_and\<close> before line 93 is evaluated, so an exception of
  line 93 would leave the new \<open>stacked_and\<close> behind.
\<close>

definition fold_pg :: "run_state \<Rightarrow> fl list \<times> fl list \<Rightarrow> run_state \<times> exn option" where
  "fold_pg s xp =
     (case frecs s of
        None \<Rightarrow>
          (s\<lparr>frecs := Some (fst xp), stacked_and := Some (snd xp),
             stacked_or := Some (snd xp)\<rparr>, None)
      | Some _ \<Rightarrow>
          (case stacked_and s of
             None \<Rightarrow> (s, Some TypeError)
           | Some a \<Rightarrow>
               (case np_mul a (snd xp) of
                  Inl e \<Rightarrow> (s, Some e)
                | Inr a' \<Rightarrow>
                    (let s1 = s\<lparr>stacked_and := Some a'\<rparr> in
                     case stacked_or s1 of
                       None \<Rightarrow> (s1, Some TypeError)
                     | Some p \<Rightarrow>
                         (case np_add p (snd xp) of
                            Inl e \<Rightarrow> (s1, Some e)
                          | Inr p' \<Rightarrow> (s1\<lparr>stacked_or := Some p'\<rparr>, None))))))"

text \<open>The body of the \<open>try\<close> (lines 84 to 93) for one file.\<close>

definition try_body :: "run_state \<Rightarrow> exn + ndarray \<Rightarrow> run_state \<times> exn option" where
  "try_body s loaded =
     (case loaded of
        Inl e \<Rightarrow> (s, Some e)
      | Inr new_pg \<Rightarrow>
          (case normalize_pg new_pg of
             Inl e \<Rightarrow> (s, Some e)
           | Inr xp \<Rightarrow> fold_pg s xp))"

text \<open>One iteration of the loop (lines 82 to 95), with the \<open>except\<close> clause.\<close>

definition process_file :: "run_state \<Rightarrow> pg_file \<Rightarrow> run_state" where
  "process_file s f =
     (case try_body s (snd f) of
        (s', None) \<Rightarrow> s'
      | (s', Some e) \<Rightarrow> s'\<lparr>error_files := error_files s' @ [(fst f, e)]\<rparr>)"

definition run_loop :: "pg_file list \<Rightarrow> run_state" where
  "run_loop pg_files = foldl process_file init_state pg_files"

text \<open>
  \<open>np.vstack((frecs, stacked_and, stacked_or)).T\<close>: one row
  \<open>[frequency, AND, OR]\<close> per index; rows of different lengths cannot be stacked.
\<close>

definition vstack_T :: "fl list \<Rightarrow> fl list \<Rightarrow> fl list \<Rightarrow> exn + fl list list" where
  "vstack_T x a p =
     (if length x = length a \<and> length a = length p
      then Inr (map (\<lambda>i. [x ! i, a ! i, p ! i]) [0..<length x])
      else Inl ValueError)"

text \<open>
  Lines 97 to 100, in the order of evaluation: the integral is computed before the
  division of line 97 (and of line 98) looks at its left operand. A division or a stack
  with \<open>None\<close> where the integral went through (states the loop never reaches) is given
  as a \<open>TypeError\<close>.
\<close>

definition finalize :: "run_state \<Rightarrow> exn + fl list list" where
  "finalize s =
     (case trapz_opt (stacked_and s) (frecs s) of
        Inl e \<Rightarrow> Inl e
      | Inr ta \<Rightarrow>
          (case stacked_and s of
             None \<Rightarrow> Inl TypeError
           | Some a \<Rightarrow>
               (case trapz_opt (stacked_or s) (frecs s) of
                  Inl e \<Rightarrow> Inl e
                | Inr tp \<Rightarrow>
                    (case stacked_or s of
                       None \<Rightarrow> Inl TypeError
                     | Some p \<Rightarrow>
                         (case frecs s of
                            None \<Rightarrow> Inl TypeError
                          | Some x \<Rightarrow>
                              vstack_T x (map (\<lambda>v. v / ta) a) (map (\<lambda>v. v / tp) p))))))"

text \<open>
  \<open>_calcStacked\<close>: the error log, and either the exception that ends the run or the
  table assigned to \<open>self.stacked\<close>.
\<close>

definition calcStacked :: "pg_file list \<Rightarrow> (string \<times> exn) list \<times> (exn + fl list list)" where
  "calcStacked pg_files = (let s = run_loop pg_files in (error_files s, finalize s))"

section \<open>Double precision\<close>

text \<open>
  An IEEE binary64 value is \<open>m * 2 ^ p\<close> with \<open>\<bar>m\<bar> < 2 ^ 53\<close> and \<open>- 1074 \<le> p \<le> 971\<close>. The
  result of an operation is the exact result rounded to the nearest such value, ties to
  the even \<open>m\<close>; results of magnitude \<open>2 ^ 1024\<close> or more after rounding become an
  infinity, and results below \<open>2 ^ (- 1022)\<close> are rounded on the fixed spacing
  \<open>2 ^ (- 1074)\<close> (gradual underflow).

  \<open>floor_log2 q\<close> is the binary exponent of a positive rational, \<open>\<lfloor>log\<^sub>2 q\<rfloor>\<close>, computed
  from the bit lengths of numerator and denominator.
\<close>

definition floor_log2 :: "rat \<Rightarrow> int" where
  "floor_log2 q =
     (let (n, d) = quotient_of q; k = bitlen n - bitlen d
      in if 2 powi k \<le> q then k else k - 1)"

text \<open>
  The integer nearest to a rational, a tie going to the even neighbour.
\<close>

definition round_half_even :: "rat \<Rightarrow> int" where
  "round_half_even m =
     (let f = \<lfloor>m\<rfloor>; r = m - of_int f
      in if r < 1 / 2 then f else if 1 / 2 < r then f + 1 else if even f then f else f + 1)"

text \<open>
  The double nearest to a rational: the spacing is \<open>2 ^ p\<close> with \<open>p\<close> the exponent of the
  value less 52, and not below \<open>- 1074\<close>.
\<close>

definition rnd :: "rat \<Rightarrow> fl" where
  "rnd q =
     (if q = 0 then Fin 0
      else
        (let a = \<bar>q\<bar>; e = floor_log2 a
         in if 1024 \<le> e then signed_inf q
            else
              (let p = max e (- 1022) - 52;
                   v = of_int (round_half_even (a / 2 powi p)) * 2 powi p
               in if 2 powi 1024 \<le> v then signed_inf q else Fin (sgn q * v))))"

text \<open>
  Infinities and \<open>NaN\<close> are doubles already.
\<close>

fun round_fl :: "fl \<Rightarrow> fl" where
  "round_fl (Fin q) = rnd q"
| "round_fl v = v"

section \<open>The run in a given arithmetic\<close>

text \<open>
  The five operations that \<open>_calcStacked\<close> and \<open>np.trapz\<close> apply to array elements:
  addition, subtraction, multiplication, division, and the sum of an array
  (\<open>ndarray.sum\<close>).
\<close>

record arith =
  fadd :: "fl \<Rightarrow> fl \<Rightarrow> fl"
  fsub :: "fl \<Rightarrow> fl \<Rightarrow> fl"
  fmul :: "fl \<Rightarrow> fl \<Rightarrow> fl"
  fdiv :: "fl \<Rightarrow> fl \<Rightarrow> fl"
  fsum :: "fl list \<Rightarrow> fl"

text \<open>
  The operations without rounding.
\<close>

definition exact_arith :: arith where
  "exact_arith = \<lparr>fadd = (+), fsub = (-), fmul = (*), fdiv = (/), fsum = sum_list\<rparr>"

text \<open>
  The operations of the machine: each result is rounded. The sum adds from left to
  right starting at zero, as numpy's \<open>sum\<close> does on an array of fewer than eight elements
  (longer arrays are summed pairwise, in another order of roundings; properties stated
  for every arithmetic hold whatever the sum is).
\<close>

definition double_arith :: arith where
  "double_arith =
     \<lparr>fadd = (\<lambda>a b. round_fl (a + b)), fsub = (\<lambda>a b. round_fl (a - b)),
      fmul = (\<lambda>a b. round_fl (a * b)), fdiv = (\<lambda>a b. round_fl (a / b)),
      fsum = foldl (\<lambda>a b. round_fl (a + b)) (Fin 0)\<rparr>"

text \<open>
  The definitions of the two preceding sections once more, line for line, with every
  operation on elements taken from the arithmetic \<open>A\<close>: \<open>np.diff\<close>, the sums of
  neighbouring samples, \<open>np.trapz\<close> (\<open>(d * (y[1:] + y[:-1]) / 2.0).sum()\<close>), line 86, lines
  87 to 93, the \<open>try\<close> body, one iteration, the loop, and lines 97 to 100.
\<close>

definition diff_in :: "arith \<Rightarrow> fl list \<Rightarrow> fl list" where
  "diff_in A x = map2 (fsub A) (tl x) (butlast x)"

definition pair_sums_in :: "arith \<Rightarrow> fl list \<Rightarrow> fl list" where
  "pair_sums_in A y = map2 (fadd A) (tl y) (butlast y)"

definition trapz_in :: "arith \<Rightarrow> fl list \<Rightarrow> fl list \<Rightarrow> exn + fl" where
  "trapz_in A y x =
     (case np_binop (fmul A) (diff_in A x) (pair_sums_in A y) of
        Inl e \<Rightarrow> Inl e
      | Inr ds \<Rightarrow> Inr (fsum A (map (\<lambda>v. fdiv A v (Fin 2)) ds)))"

fun trapz_opt_in :: "arith \<Rightarrow> fl list option \<Rightarrow> fl list option \<Rightarrow> exn + fl" where
  "trapz_opt_in A None x = Inl IndexError"
| "trapz_opt_in A (Some y) None =
     Inr (fsum A (map (\<lambda>v. fdiv A (fmul A (Fin 1) v) (Fin 2)) (pair_sums_in A y)))"
| "trapz_opt_in A (Some y) (Some x) = trapz_in A y x"

definition normalize_pg_in :: "arith \<Rightarrow> ndarray \<Rightarrow> exn + (fl list \<times> fl list)" where
  "normalize_pg_in A new_pg =
     (case column new_pg 1 of
        Inl e \<Rightarrow> Inl e
      | Inr y \<Rightarrow>
          (case column new_pg 0 of
             Inl e \<Rightarrow> Inl e
           | Inr x \<Rightarrow>
               (case trapz_in A y x of
                  Inl e \<Rightarrow> Inl e
                | Inr t \<Rightarrow> Inr (x, map (\<lambda>v. fdiv A v t) y))))"

definition fold_pg_in ::
  "arith \<Rightarrow> run_state \<Rightarrow> fl list \<times> fl list \<Rightarrow> run_state \<times> exn option" where
  "fold_pg_in A s xp =
     (case frecs s of
        None \<Rightarrow>
          (s\<lparr>frecs := Some (fst xp), stacked_and := Some (snd xp),
             stacked_or := Some (snd xp)\<rparr>, None)
      | Some _ \<Rightarrow>
          (case stacked_and s of
             None \<Rightarrow> (s, Some TypeError)
           | Some a \<Rightarrow>
               (case np_binop (fmul A) a (snd xp) of
                  Inl e \<Rightarrow> (s, Some e)
                | Inr a' \<Rightarrow>
                    (let s1 = s\<lparr>stacked_and := Some a'\<rparr> in
                     case stacked_or s1 of
                       None \<Rightarrow> (s1, Some TypeError)
                     | Some p \<Rightarrow>
                         (case np_binop (fadd A) p (snd xp) of
                            Inl e \<Rightarrow> (s1, Some e)
                          | Inr p' \<Rightarrow> (s1\<lparr>stacked_or := Some p'\<rparr>, None))))))"

definition try_body_in :: "arith \<Rightarrow> run_state \<Rightarrow> exn + ndarray \<Rightarrow> run_state \<times> exn option" where
  "try_body_in A s loaded =
     (case loaded of
        Inl e \<Rightarrow> (s, Some e)
      | Inr new_pg \<Rightarrow>
          (case normalize_pg_in A new_pg of
             Inl e \<Rightarrow> (s, Some e)
           | Inr xp \<Rightarrow> fold_pg_in A s xp))"

definition process_file_in :: "arith \<Rightarrow> run_state \<Rightarrow> pg_file \<Rightarrow> run_state" where
  "process_file_in A s f =
     (case try_body_in A s (snd f) of
        (s', None) \<Rightarrow> s'
      | (s', Some e) \<Rightarrow> s'\<lparr>error_files := error_files s' @ [(fst f, e)]\<rparr>)"

definition run_loop_in :: "arith \<Rightarrow> pg_file list \<Rightarrow> run_state" where
  "run_loop_in A pg_files = foldl (process_file_in A) init_state pg_files"

definition finalize_in :: "arith \<Rightarrow> run_state \<Rightarrow> exn + fl list list" where
  "finalize_in A s =
     (case trapz_opt_in A (stacked_and s) (frecs s) of
        Inl e \<Rightarrow> Inl e
      | Inr ta \<Rightarrow>
          (case stacked_and s of
             None \<Rightarrow> Inl TypeError
           | Some a \<Rightarrow>
               (case trapz_opt_in A (stacked_or s) (frecs s) of
                  Inl e \<Rightarrow> Inl e
                | Inr tp \<Rightarrow>
                    (case stacked_or s of
                       None \<Rightarrow> Inl TypeError
                     | Some p \<Rightarrow>
                         (case frecs s of
                            None \<Rightarrow> Inl TypeError
                          | Some x \<Rightarrow>
                              vstack_T x (map (\<lambda>v. fdiv A v ta) a)
                                (map (\<lambda>v. fdiv A v tp) p))))))"

definition calcStacked_in ::
  "arith \<Rightarrow> pg_file list \<Rightarrow> (string \<times> exn) list \<times> (exn + fl list list)" where
  "calcStacked_in A pg_files =
     (let s = run_loop_in A pg_files in (error_files s, finalize_in A s))"

section \<open>Notions used to state the properties\<close>

text \<open>
  The trapezoidal integral of the samples \<open>y\<close> over the grid \<open>x\<close>, written index by
  index: the sum over neighbouring grid points of width times the sum of the two
  samples, halved.
\<close>

definition integral :: "fl list \<Rightarrow> fl list \<Rightarrow> fl" where
  "integral y x =
     (\<Sum>i\<leftarrow>[0..<length x - 1]. ((x ! (i + 1) - x ! i) * (y ! (i + 1) + y ! i)) / Fin 2)"

text \<open>A curve divided by its own integral over the grid.\<close>

definition normalized :: "fl list \<Rightarrow> fl list \<Rightarrow> fl list" where
  "normalized x y = map (\<lambda>v. v / integral y x) y"

text \<open>
  The frequency column and the power column of a file that parsed into a 2-d array with
  at least two columns; \<open>None\<close> for every other file.
\<close>

definition pg_columns :: "pg_file \<Rightarrow> (fl list \<times> fl list) option" where
  "pg_columns f =
     (case snd f of
        Inl e \<Rightarrow> None
      | Inr arr \<Rightarrow>
          (case column arr 0 of
             Inl e \<Rightarrow> None
           | Inr x \<Rightarrow> (case column arr 1 of Inl e \<Rightarrow> None | Inr y \<Rightarrow> Some (x, y))))"

text \<open>The file parsed and its frequency column is the given grid.\<close>

definition on_grid :: "fl list \<Rightarrow> pg_file \<Rightarrow> bool" where
  "on_grid grid f = (case pg_columns f of None \<Rightarrow> False | Some (x, y) \<Rightarrow> x = grid)"

text \<open>The power column of a parsed file.\<close>

definition power_col :: "pg_file \<Rightarrow> fl list" where
  "power_col f = (case pg_columns f of None \<Rightarrow> [] | Some (x, y) \<Rightarrow> y)"

text \<open>The result table built from a grid and two combined curves, each renormalized.\<close>

definition stacked_table :: "fl list \<Rightarrow> fl list \<Rightarrow> fl list \<Rightarrow> fl list list" where
  "stacked_table grid a p =
     map (\<lambda>i. [grid ! i, a ! i / integral a grid, p ! i / integral p grid])
       [0..<length grid]"

text \<open>Column \<open>k\<close> of a result table.\<close>

definition table_col :: "fl list list \<Rightarrow> nat \<Rightarrow> fl list" where
  "table_col T k = map (\<lambda>r. r ! k) T"

text \<open>
  The three accumulators are unset together or set together with one length.
\<close>

definition aligned :: "run_state \<Rightarrow> bool" where
  "aligned s =
     (case frecs s of
        None \<Rightarrow> stacked_and s = None \<and> stacked_or s = None
      | Some x \<Rightarrow>
          (case stacked_and s of
             None \<Rightarrow> False
           | Some a \<Rightarrow>
               (case stacked_or s of
                  None \<Rightarrow> False
                | Some p \<Rightarrow> length x = length a \<and> length a = length p)))"

text \<open>
  The shape of what \<open>np.genfromtxt\<close> returns: it squeezes its result, so a 2-d array
  has at least two rows (a file of one row comes back 1-d).
\<close>

fun genfromtxt_shape :: "exn + ndarray \<Rightarrow> bool" where
  "genfromtxt_shape (Inr (Arr2 rows)) = (2 \<le> length rows)"
| "genfromtxt_shape _ = True"

text \<open>
  The invariant of the loop for arrays of the shape \<open>np.genfromtxt\<close> returns: aligned
  accumulators over a grid of at least two points.
\<close>

definition grid_ready :: "run_state \<Rightarrow> bool" where
  "grid_ready s =
     (aligned s \<and> (case frecs s of None \<Rightarrow> True | Some x \<Rightarrow> 2 \<le> length x))"

text \<open>
  The weaker relation that holds whatever the files are: the accumulators are unset
  together, or set together with \<open>stacked_and\<close> and \<open>stacked_or\<close> of one length.
\<close>

definition acc_paired :: "run_state \<Rightarrow> bool" where
  "acc_paired s =
     (case frecs s of
        None \<Rightarrow> stacked_and s = None \<and> stacked_or s = None
      | Some x \<Rightarrow>
          (case stacked_and s of
             None \<Rightarrow> False
           | Some a \<Rightarrow>
               (case stacked_or s of
                  None \<Rightarrow> False
                | Some p \<Rightarrow> length a = length p)))"

text \<open>
  The trapezoidal integral, the normalized curve and the normalized power of a file in a
  given arithmetic.
\<close>

definition integral_in :: "arith \<Rightarrow> fl list \<Rightarrow> fl list \<Rightarrow> fl" where
  "integral_in A y x =
     fsum A (map (\<lambda>i. fdiv A (fmul A (fsub A (x ! (i + 1)) (x ! i))
                                   (fadd A (y ! (i + 1)) (y ! i))) (Fin 2))
               [0..<length x - 1])"

definition normalized_in :: "arith \<Rightarrow> fl list \<Rightarrow> fl list \<Rightarrow> fl list" where
  "normalized_in A x y = map (\<lambda>v. fdiv A v (integral_in A y x)) y"

definition norm_power_in :: "arith \<Rightarrow> fl list \<Rightarrow> pg_file \<Rightarrow> fl list" where
  "norm_power_in A grid f = normalized_in A grid (power_col f)"

text \<open>
  The two combinations as the specification words them, in the order of the fold: at
  each grid index the product, respectively the sum, of the normalized powers there,
  starting from the first file and taking the others from left to right.
\<close>

definition and_curve_in :: "arith \<Rightarrow> fl list \<Rightarrow> pg_file \<Rightarrow> pg_file list \<Rightarrow> fl list" where
  "and_curve_in A grid f fs =
     map (\<lambda>i. foldl (fmul A) (norm_power_in A grid f ! i)
                 (map (\<lambda>g. norm_power_in A grid g ! i) fs)) [0..<length grid]"

definition or_curve_in :: "arith \<Rightarrow> fl list \<Rightarrow> pg_file \<Rightarrow> pg_file list \<Rightarrow> fl list" where
  "or_curve_in A grid f fs =
     map (\<lambda>i. foldl (fadd A) (norm_power_in A grid f ! i)
                 (map (\<lambda>g. norm_power_in A grid g ! i) fs)) [0..<length grid]"

text \<open>
  The result table built from a grid and two combined curves, each renormalized.
\<close>

definition stacked_table_in :: "arith \<Rightarrow> fl list \<Rightarrow> fl list \<Rightarrow> fl list \<Rightarrow> fl list list" where
  "stacked_table_in A grid a p =
     map (\<lambda>i. [grid ! i, fdiv A (a ! i) (integral_in A a grid),
               fdiv A (p ! i) (integral_in A p grid)]) [0..<length grid]"


text \<open>
  Both accumulators are set and hold no finite value.
\<close>

definition poisoned :: "run_state \<Rightarrow> bool" where
  "poisoned s =
     (case stacked_and s of
        None \<Rightarrow> False
      | Some a \<Rightarrow>
          (case stacked_or s of
             None \<Rightarrow> False
           | Some p \<Rightarrow> list_all (\<lambda>v. \<not> is_finite v) a \<and> list_all (\<lambda>v. \<not> is_finite v) p))"

text \<open>
  The three files of the specification's concrete scenario: the grid \<open>[1, 2, 3]\<close> with
  the powers \<open>[1, 1, 1]\<close>, \<open>[2, 2, 2]\<close> and \<open>[0, 0, 4]\<close>.
\<close>

definition pg_ones :: pg_file where
  "pg_ones = (''ones.dat'', Inr (Arr2 [[Fin 1, Fin 1], [Fin 2, Fin 1], [Fin 3, Fin 1]]))"

definition pg_twos :: pg_file where
  "pg_twos = (''twos.dat'', Inr (Arr2 [[Fin 1, Fin 2], [Fin 2, Fin 2], [Fin 3, Fin 2]]))"

definition pg_peak :: pg_file where
  "pg_peak = (''peak.dat'', Inr (Arr2 [[Fin 1, Fin 0], [Fin 2, Fin 0], [Fin 3, Fin 4]]))"

text \<open>A file of two rows only, on a grid shorter than the scenario's.\<close>

definition pg_short :: pg_file where
  "pg_short = (''short.dat'', Inr (Arr2 [[Fin 1, Fin 1], [Fin 2, Fin 1]]))"

text \<open>A file that \<open>np.genfromtxt\<close> rejects, and a file of a single row (a 1-d array).\<close>

definition pg_broken :: pg_file where
  "pg_broken = (''broken.dat'', Inl (LoadFailure ''ValueError'' ''Some errors were detected''))"

definition pg_row :: pg_file where
  "pg_row = (''row.dat'', Inr (Arr1 [Fin 1, Fin 1]))"

text \<open>
  Two files on the grid \<open>[1, 2, 3]\<close> whose powers \<open>[1, - 1 + 2\<^sup>-\<^sup>5\<^sup>2, 1]\<close> and
  \<open>[- 1, 1 + 2\<^sup>-\<^sup>5\<^sup>2, - 1]\<close> have the integrals \<open>2\<^sup>-\<^sup>5\<^sup>2\<close> and \<open>- 2\<^sup>-\<^sup>5\<^sup>2\<close>: their normalized
  powers are large and nearly opposite.
\<close>

definition pg_up :: pg_file where
  "pg_up = (''up.dat'',
     Inr (Arr2 [[Fin 1, Fin 1], [Fin 2, Fin (- 1 + 1 / 2 ^ 52)], [Fin 3, Fin 1]]))"

definition pg_down :: pg_file where
  "pg_down = (''down.dat'',
     Inr (Arr2 [[Fin 1, Fin (- 1)], [Fin 2, Fin (1 + 1 / 2 ^ 52)], [Fin 3, Fin (- 1)]]))"

text \<open>
  Single files on the same grid: the powers \<open>[0, 1, 4]\<close>; the powers
  \<open>[1 - 2\<^sup>-\<^sup>5\<^sup>2, - 1 - 2\<^sup>-\<^sup>5\<^sup>2, 1]\<close>, of integral \<open>- 3 * 2\<^sup>-\<^sup>5\<^sup>3\<close>; and the powers
  \<open>[1, - 1 + 2\<^sup>-\<^sup>5\<^sup>1, 1 - 2\<^sup>-\<^sup>5\<^sup>2]\<close>, of integral \<open>3 * 2\<^sup>-\<^sup>5\<^sup>3\<close>. All entries are doubles.
\<close>

definition pg_ramp :: pg_file where
  "pg_ramp = (''ramp.dat'', Inr (Arr2 [[Fin 1, Fin 0], [Fin 2, Fin 1], [Fin 3, Fin 4]]))"

definition pg_cancel :: pg_file where
  "pg_cancel = (''cancel.dat'',
     Inr (Arr2 [[Fin 1, Fin (1 - 1 / 2 ^ 52)], [Fin 2, Fin (- 1 - 1 / 2 ^ 52)], [Fin 3, Fin 1]]))"





section \<open>Arrays and integrals\<close>

lemma np_binop_same_length:
  "length xs = length ys \<Longrightarrow> np_binop f xs ys = Inr (map2 f xs ys)"
  by (simp add: np_binop_def)

lemma map2_nth_upt:
  "length xs = length ys \<Longrightarrow> map2 f xs ys = map (\<lambda>i. f (xs ! i) (ys ! i)) [0..<length xs]"
  by (rule nth_equalityI) simp_all

lemma length_diff [simp]: "length (diff x) = length x - 1"
  by (simp add: diff_def)

lemma length_pair_sums [simp]: "length (pair_sums y) = length y - 1"
  by (simp add: pair_sums_def)

lemma nth_diff: "i < length x - 1 \<Longrightarrow> diff x ! i = x ! (i + 1) - x ! i"
  by (simp add: diff_def nth_tl nth_butlast)

lemma nth_pair_sums: "i < length y - 1 \<Longrightarrow> pair_sums y ! i = y ! (i + 1) + y ! i"
  by (simp add: pair_sums_def nth_tl nth_butlast)

lemma trapz_integral:
  assumes "length y = length x"
  shows "trapz y x = Inr (integral y x)"
proof -
  have "map (\<lambda>v. v / Fin 2) (map2 (*) (diff x) (pair_sums y)) =
        map (\<lambda>i. ((x ! (i + 1) - x ! i) * (y ! (i + 1) + y ! i)) / Fin 2) [0..<length x - 1]"
    using assms by (intro nth_equalityI) (simp_all add: nth_diff nth_pair_sums)
  then show ?thesis
    using assms by (simp add: trapz_def np_mul_def np_binop_same_length integral_def)
qed

section \<open>Scaling and special values\<close>




lemma fl_div_one [simp]: "v / Fin 1 = v"
  by (cases v) simp_all







section \<open>One file at a time\<close>

lemma np_binop_length_eq:
  assumes "length a = length p"
  shows "(\<exists>e. np_binop f a v = Inl e \<and> np_binop g p v = Inl e) \<or>
         (\<exists>a' p'. np_binop f a v = Inr a' \<and> np_binop g p v = Inr p' \<and> length a' = length p')"
  using assms by (auto simp: np_binop_def)

lemma fold_pg_cases:
  assumes "acc_paired s"
  shows "(\<exists>e. fold_pg s xp = (s, Some e)) \<or>
         (\<exists>s'. fold_pg s xp = (s', None) \<and> acc_paired s' \<and> error_files s' = error_files s)"
proof (cases "frecs s")
  case None
  then show ?thesis by (simp add: fold_pg_def acc_paired_def)
next
  case (Some x)
  with assms obtain a p where ap: "stacked_and s = Some a" "stacked_or s = Some p"
      "length a = length p"
    by (auto simp: acc_paired_def split: option.splits)
  from np_binop_length_eq [OF ap(3), of "(*)" "snd xp" "(+)"]
  show ?thesis
  proof
    assume "\<exists>e. np_binop (*) a (snd xp) = Inl e \<and> np_binop (+) p (snd xp) = Inl e"
    then show ?thesis using Some ap by (auto simp: fold_pg_def np_mul_def)
  next
    assume "\<exists>a' p'. np_binop (*) a (snd xp) = Inr a' \<and> np_binop (+) p (snd xp) = Inr p' \<and>
      length a' = length p'"
    then show ?thesis using Some ap
      by (auto simp: fold_pg_def np_mul_def np_add_def acc_paired_def Let_def)
  qed
qed

lemma try_body_cases:
  assumes "acc_paired s"
  shows "(\<exists>e. try_body s r = (s, Some e)) \<or>
         (\<exists>s'. try_body s r = (s', None) \<and> acc_paired s' \<and> error_files s' = error_files s)"
proof (cases r)
  case (Inl e)
  then show ?thesis by (simp add: try_body_def)
next
  case (Inr arr)
  show ?thesis
  proof (cases "normalize_pg arr")
    case (Inl e)
    then show ?thesis using Inr by (simp add: try_body_def)
  next
    case (Inr xp)
    then show ?thesis using \<open>r = Inr arr\<close> fold_pg_cases [OF assms, of xp]
      by (simp add: try_body_def)
  qed
qed

lemma acc_paired_error_files [simp]:
  "acc_paired (s\<lparr>error_files := l\<rparr>) = acc_paired s"
  by (simp add: acc_paired_def split: option.splits)

lemma acc_paired_process_file:
  "acc_paired s \<Longrightarrow> acc_paired (process_file s f)"
  using try_body_cases [of s "snd f"] by (auto simp: process_file_def)

lemma acc_paired_foldl:
  "acc_paired s \<Longrightarrow> acc_paired (foldl process_file s fs)"
  by (induction fs arbitrary: s) (simp_all add: acc_paired_process_file)

lemma acc_paired_run_loop: "acc_paired (run_loop fs)"
proof -
  have "acc_paired init_state"
    by (simp add: acc_paired_def init_state_def)
  then show ?thesis
    by (simp add: run_loop_def acc_paired_foldl)
qed

section \<open>Files on a shared grid\<close>

lemma column_length: "column arr k = Inr c \<Longrightarrow> \<exists>rows. arr = Arr2 rows \<and> length c = length rows"
  by (cases arr) (auto split: if_splits)

lemma pg_columns_Some:
  assumes "pg_columns f = Some (x, y)"
  shows "\<exists>arr. snd f = Inr arr \<and> column arr 0 = Inr x \<and> column arr 1 = Inr y \<and>
           length y = length x"
proof -
  from assms obtain arr where a: "snd f = Inr arr" "column arr 0 = Inr x" "column arr 1 = Inr y"
    by (auto simp: pg_columns_def split: sum.splits)
  from column_length [OF a(2)] column_length [OF a(3)] have "length y = length x" by auto
  with a show ?thesis by blast
qed

lemma pg_columns_None:
  "pg_columns f = None \<Longrightarrow> \<exists>e. try_body s (snd f) = (s, Some e)"
  by (auto simp: pg_columns_def try_body_def normalize_pg_def split: sum.splits)

lemma try_body_parsed:
  assumes "pg_columns f = Some (x, y)"
  shows "try_body s (snd f) = fold_pg s (x, normalized x y)"
proof -
  from pg_columns_Some [OF assms] obtain arr where a: "snd f = Inr arr"
      "column arr 0 = Inr x" "column arr 1 = Inr y" "length y = length x"
    by blast
  then show ?thesis
    by (simp add: try_body_def normalize_pg_def trapz_integral normalized_def)
qed

lemma on_grid_columns: "on_grid grid f \<Longrightarrow> pg_columns f = Some (grid, power_col f)"
  by (auto simp: on_grid_def power_col_def split: option.splits)

section \<open>Skipped files and the loop invariant\<close>

lemma foldl_none_loaded:
  assumes "\<forall>f\<in>set fs. pg_columns f = None"
  shows "\<exists>l. foldl process_file s fs = s\<lparr>error_files := error_files s @ l\<rparr> \<and>
              map fst l = map fst fs"
  using assms
proof (induction fs arbitrary: s)
  case Nil
  then show ?case by simp
next
  case (Cons f fs)
  from Cons.prems have "pg_columns f = None" by simp
  from pg_columns_None [OF this, of s] obtain e where
    e: "process_file s f = s\<lparr>error_files := error_files s @ [(fst f, e)]\<rparr>"
    by (auto simp: process_file_def)
  from Cons.prems have "\<forall>f\<in>set fs. pg_columns f = None" by simp
  from Cons.IH [OF this, of "process_file s f"] obtain l where
    l: "foldl process_file (process_file s f) fs =
          (process_file s f)\<lparr>error_files := error_files (process_file s f) @ l\<rparr>"
      "map fst l = map fst fs"
    by blast
  have "foldl process_file s (f # fs) = s\<lparr>error_files := error_files s @ ((fst f, e) # l)\<rparr>"
    using l(1) e by simp
  moreover have "map fst ((fst f, e) # l) = map fst (f # fs)"
    using l(2) by simp
  ultimately show ?case by blast
qed

lemma grid_ready_error_files [simp]:
  "grid_ready (s\<lparr>error_files := l\<rparr>) = grid_ready s"
  by (simp add: grid_ready_def aligned_def split: option.splits)

lemma fold_pg_grid_ready:
  assumes "grid_ready s" "length (fst xp) = length (snd xp)" "2 \<le> length (fst xp)"
  shows "grid_ready (fst (fold_pg s xp))"
proof (cases "frecs s")
  case None
  then show ?thesis
    using assms by (simp add: fold_pg_def grid_ready_def aligned_def)
next
  case (Some x)
  with assms(1) obtain a p where ap: "stacked_and s = Some a" "stacked_or s = Some p"
      "length x = length a" "length a = length p" "2 \<le> length x"
    by (auto simp: grid_ready_def aligned_def split: option.splits)
  show ?thesis
  proof (cases "length (snd xp) = length x")
    case True
    then show ?thesis
      using Some ap
      by (simp add: fold_pg_def np_mul_def np_add_def np_binop_def grid_ready_def aligned_def)
  next
    case False
    then have "np_mul a (snd xp) = Inl ValueError"
      using ap assms(2,3) by (simp add: np_mul_def np_binop_def)
    then show ?thesis
      using Some ap assms(1) by (simp add: fold_pg_def)
  qed
qed

lemma process_file_grid_ready:
  assumes "grid_ready s" "genfromtxt_shape (snd f)"
  shows "grid_ready (process_file s f)"
proof (cases "pg_columns f")
  case None
  from pg_columns_None [OF this, of s] show ?thesis
    using assms(1) by (auto simp: process_file_def)
next
  case (Some xy)
  obtain x y where xy: "xy = (x, y)" by (cases xy)
  from pg_columns_Some [OF Some [unfolded xy]] obtain arr where
    arr: "snd f = Inr arr" "column arr 0 = Inr x" "length y = length x"
    by blast
  from column_length [OF arr(2)] obtain rows where
    rows: "arr = Arr2 rows" "length x = length rows"
    by blast
  have two: "2 \<le> length x"
    using assms(2) arr(1) rows by simp
  have body: "try_body s (snd f) = fold_pg s (x, normalized x y)"
    using try_body_parsed [OF Some [unfolded xy]] .
  have "grid_ready (fst (fold_pg s (x, normalized x y)))"
    by (rule fold_pg_grid_ready [OF assms(1)]) (simp_all add: normalized_def arr(3) two)
  then show ?thesis
    by (cases "fold_pg s (x, normalized x y)")
       (auto simp: process_file_def body split: option.splits)
qed

lemma foldl_grid_ready:
  "grid_ready s \<Longrightarrow> \<forall>f\<in>set fs. genfromtxt_shape (snd f) \<Longrightarrow>
   grid_ready (foldl process_file s fs)"
  by (induction fs arbitrary: s) (simp_all add: process_file_grid_ready)

lemma run_loop_aligned:
  assumes "\<forall>f\<in>set fs. genfromtxt_shape (snd f)"
  shows "aligned (run_loop fs)"
proof -
  have "grid_ready init_state"
    by (simp add: grid_ready_def aligned_def init_state_def)
  from foldl_grid_ready [OF this assms] show ?thesis
    by (simp add: run_loop_def grid_ready_def)
qed


lemma finalize_of_aligned:
  assumes "aligned s" "frecs s = Some x"
  shows "\<exists>a p. stacked_and s = Some a \<and> stacked_or s = Some p \<and>
           length a = length x \<and> length p = length x \<and>
           finalize s = Inr (stacked_table x a p)"
  using assms
  by (auto simp: aligned_def finalize_def trapz_integral vstack_T_def stacked_table_def
      split: option.splits)

section \<open>Rounding to the nearest double\<close>

lemma floor_log2_bounds:
  assumes "0 < a"
  shows "2 powi (floor_log2 a) \<le> a \<and> a < 2 powi (floor_log2 a + 1)"
proof -
  obtain n d where q: "quotient_of a = (n, d)" by (cases "quotient_of a")
  have d: "0 < d" using quotient_of_denom_pos [OF q] .
  have a: "a = of_int n / of_int d" using quotient_of_div [OF q] .
  have n: "0 < n" using assms d a by (simp add: zero_less_divide_iff)
  define bn bd where "bn = bitlen n" and "bd = bitlen d"
  have bn1: "1 \<le> bn" and bd1: "1 \<le> bd"
    using n d bitlen_eq_zero_iff [of n] bitlen_eq_zero_iff [of d] bitlen_nonneg [of n]
      bitlen_nonneg [of d]
    by (auto simp: bn_def bd_def)
  from bitlen_bounds [OF n] have nb: "2 ^ nat (bn - 1) \<le> n" "n < 2 ^ nat bn"
    by (simp_all add: bn_def)
  from bitlen_bounds [OF d] have db: "2 ^ nat (bd - 1) \<le> d" "d < 2 ^ nat bd"
    by (simp_all add: bd_def)
  have nlo: "(2::rat) powi (bn - 1) \<le> of_int n"
  proof -
    have "(of_int (2 ^ nat (bn - 1)) :: rat) \<le> of_int n" using nb(1) by (simp only: of_int_le_iff)
    then show ?thesis using bn1 by (simp add: power_int_nonneg_exp)
  qed
  have nhi: "(of_int n :: rat) < 2 powi bn"
  proof -
    have "(of_int n :: rat) < of_int (2 ^ nat bn)" using nb(2) by (simp only: of_int_less_iff)
    then show ?thesis using bn1 by (simp add: power_int_nonneg_exp)
  qed
  have dlo: "(2::rat) powi (bd - 1) \<le> of_int d"
  proof -
    have "(of_int (2 ^ nat (bd - 1)) :: rat) \<le> of_int d" using db(1) by (simp only: of_int_le_iff)
    then show ?thesis using bd1 by (simp add: power_int_nonneg_exp)
  qed
  have dhi: "(of_int d :: rat) < 2 powi bd"
  proof -
    have "(of_int d :: rat) < of_int (2 ^ nat bd)" using db(2) by (simp only: of_int_less_iff)
    then show ?thesis using bd1 by (simp add: power_int_nonneg_exp)
  qed
  have dpos: "(0::rat) < of_int d" using d by simp
  have npos: "(0::rat) < of_int n" using n by simp
  define k where "k = bn - bd"
  have hi: "a < 2 powi (k + 1)"
  proof -
    have "a * (2::rat) powi (bd - 1) \<le> a * of_int d"
      using dlo assms by (simp add: mult_left_mono)
    also have "\<dots> = of_int n" using a dpos by simp
    also have "\<dots> < 2 powi bn" by (rule nhi)
    also have "\<dots> = 2 powi (k + 1) * 2 powi (bd - 1)"
      by (simp add: k_def power_int_add [symmetric])
    finally show ?thesis by simp
  qed
  have lo: "2 powi (k - 1) < a"
  proof -
    have "(2::rat) powi (k - 1) * of_int d < 2 powi (k - 1) * 2 powi bd"
      using dhi by (simp add: zero_less_power_int)
    also have "\<dots> = 2 powi (bn - 1)"
      by (simp add: k_def power_int_add [symmetric])
    also have "\<dots> \<le> of_int n" by (rule nlo)
    also have "\<dots> = a * of_int d" using a dpos by simp
    finally show ?thesis using dpos by simp
  qed
  have fl: "floor_log2 a = (if 2 powi k \<le> a then k else k - 1)"
    by (simp add: floor_log2_def q k_def bn_def bd_def Let_def)
  show ?thesis
  proof (cases "2 powi k \<le> a")
    case True
    then show ?thesis using hi by (simp add: fl)
  next
    case False
    then show ?thesis using lo by (simp add: fl)
  qed
qed

lemma floor_log2_eq:
  assumes "2 powi e \<le> a" "a < 2 powi (e + 1)"
  shows "floor_log2 a = e"
proof -
  have pos: "0 < a"
  proof -
    have "(0::rat) < 2 powi e" by (simp add: zero_less_power_int)
    then show ?thesis using assms(1) by (rule less_le_trans)
  qed
  let ?f = "floor_log2 a"
  from floor_log2_bounds [OF pos] have f: "2 powi ?f \<le> a" "a < 2 powi (?f + 1)"
    by simp_all
  have lt: "(2::rat) powi e < 2 powi (?f + 1)" using assms(1) f(2) by simp
  have 1: "e < ?f + 1"
  proof (rule ccontr)
    assume "\<not> e < ?f + 1"
    then have "?f + 1 \<le> e" by simp
    from power_int_increasing [OF this, of "2::rat"] show False using lt by simp
  qed
  have lt': "(2::rat) powi ?f < 2 powi (e + 1)" using assms(2) f(1) by simp
  have 2: "?f < e + 1"
  proof (rule ccontr)
    assume "\<not> ?f < e + 1"
    then have "e + 1 \<le> ?f" by simp
    from power_int_increasing [OF this, of "2::rat"] show False using lt' by simp
  qed
  from 1 2 show ?thesis by simp
qed

lemma round_half_even_eq:
  assumes "\<bar>x - of_int m\<bar> < 1 / 2 \<or> (\<bar>x - of_int m\<bar> = 1 / 2 \<and> even m)"
  shows "round_half_even x = m"
proof -
  consider (below) "of_int m \<le> x" "x < of_int m + 1 / 2"
    | (above) "x < of_int m" "of_int m - 1 / 2 < x"
    | (tie_up) "x = of_int m + 1 / 2" "even m"
    | (tie_down) "x = of_int m - 1 / 2" "even m"
    using assms by (auto simp: abs_if split: if_splits) 
  then show ?thesis
  proof cases
    case below
    then have "\<lfloor>x\<rfloor> = m" by (simp add: floor_eq_iff)
    then show ?thesis using below by (simp add: round_half_even_def Let_def)
  next
    case above
    then have f: "\<lfloor>x\<rfloor> = m - 1" by (simp add: floor_eq_iff)
    then show ?thesis using above by (simp add: round_half_even_def Let_def)
  next
    case tie_up
    then have "\<lfloor>x\<rfloor> = m" by (simp add: floor_eq_iff)
    then show ?thesis using tie_up by (simp add: round_half_even_def Let_def)
  next
    case tie_down
    then have f: "\<lfloor>x\<rfloor> = m - 1" by (simp add: floor_eq_iff)
    then show ?thesis using tie_down by (simp add: round_half_even_def Let_def)
  qed
qed

lemma rnd_pos:
  assumes "2 powi e \<le> a" "a < 2 powi (e + 1)" "e < 1024" "p = max e (- 1022) - 52"
    and "\<bar>a / 2 powi p - of_int m\<bar> < 1 / 2 \<or> (\<bar>a / 2 powi p - of_int m\<bar> = 1 / 2 \<and> even m)"
    and "of_int m * 2 powi p < (2::rat) powi 1024"
  shows "rnd a = Fin (of_int m * 2 powi p)" and "rnd (- a) = Fin (- (of_int m * 2 powi p))"
proof -
  have pos: "0 < a"
  proof -
    have "(0::rat) < 2 powi e" by (simp add: zero_less_power_int)
    then show ?thesis using assms(1) by (rule less_le_trans)
  qed
  have e: "floor_log2 a = e" by (rule floor_log2_eq [OF assms(1,2)])
  have m: "round_half_even (a / 2 powi p) = m" by (rule round_half_even_eq [OF assms(5)])
  show "rnd a = Fin (of_int m * 2 powi p)"
    using pos assms(3,6) by (simp add: rnd_def e m assms(4) [symmetric] Let_def)
  show "rnd (- a) = Fin (- (of_int m * 2 powi p))"
    using pos assms(3,6) by (simp add: rnd_def e m assms(4) [symmetric] Let_def)
qed

lemma rnd_overflow:
  assumes "2 powi 1024 \<le> a"
  shows "rnd a = PInf" and "rnd (- a) = NInf"
proof -
  have pos: "0 < a"
  proof -
    have "(0::rat) < 2 powi 1024" by (simp add: zero_less_power_int)
    then show ?thesis using assms(1) by (rule less_le_trans)
  qed
  have "1024 \<le> floor_log2 a"
  proof (rule ccontr)
    assume "\<not> 1024 \<le> floor_log2 a"
    then have "floor_log2 a + 1 \<le> 1024" by simp
    from power_int_increasing [OF this, of "2::rat"] floor_log2_bounds [OF pos] assms
    show False by simp
  qed
  then show "rnd a = PInf" "rnd (- a) = NInf"
    using pos by (simp_all add: rnd_def Let_def signed_inf_def)
qed

lemma rnd_zero [simp]: "rnd 0 = Fin 0"
  by (simp add: rnd_def)

section \<open>Rounded values of the examples\<close>

text \<open>
  The roundings that occur in the runs over the example files. Each is obtained from
  \<open>rnd_pos\<close> by giving the exponent of the value and the integer it rounds to.
\<close>

lemma rnd_fact_1: "rnd (1 / 404804506614621236704990693437834614099113299528284236713802716054860679135990693783920767402874248990374155728633623822779617474771586953734026799881477019843034848553132722728933815484186432682479535356945490137124014966849385397236206711298319112681620113024717539104666829230461005064372655017292012526615415482186989568) = Fin 0"
proof -
  have "rnd (1 / 404804506614621236704990693437834614099113299528284236713802716054860679135990693783920767402874248990374155728633623822779617474771586953734026799881477019843034848553132722728933815484186432682479535356945490137124014966849385397236206711298319112681620113024717539104666829230461005064372655017292012526615415482186989568) = Fin (of_int 0 * 2 powi (-1074))"
    by (rule rnd_pos(1) [where e = "-1075"]) simp_all
  then show ?thesis by simp
qed

lemma rnd_fact_2: "rnd (1 / 202402253307310618352495346718917307049556649764142118356901358027430339567995346891960383701437124495187077864316811911389808737385793476867013399940738509921517424276566361364466907742093216341239767678472745068562007483424692698618103355649159556340810056512358769552333414615230502532186327508646006263307707741093494784) = Fin (1 / 202402253307310618352495346718917307049556649764142118356901358027430339567995346891960383701437124495187077864316811911389808737385793476867013399940738509921517424276566361364466907742093216341239767678472745068562007483424692698618103355649159556340810056512358769552333414615230502532186327508646006263307707741093494784)"
proof -
  have "rnd (1 / 202402253307310618352495346718917307049556649764142118356901358027430339567995346891960383701437124495187077864316811911389808737385793476867013399940738509921517424276566361364466907742093216341239767678472745068562007483424692698618103355649159556340810056512358769552333414615230502532186327508646006263307707741093494784) = Fin (of_int 1 * 2 powi (-1074))"
    by (rule rnd_pos(1) [where e = "-1074"]) simp_all
  then show ?thesis by simp
qed

lemma rnd_fact_3: "rnd (- (1 / 9007199254740992)) = Fin (- (1 / 9007199254740992))"
proof -
  have "rnd (- (1 / 9007199254740992)) = Fin (- (of_int 4503599627370496 * 2 powi (-105)))"
    by (rule rnd_pos(2) [where e = "-53"]) simp_all
  then show ?thesis by simp
qed

lemma rnd_fact_4: "rnd (1 / 9007199254740992) = Fin (1 / 9007199254740992)"
proof -
  have "rnd (1 / 9007199254740992) = Fin (of_int 4503599627370496 * 2 powi (-105))"
    by (rule rnd_pos(1) [where e = "-53"]) simp_all
  then show ?thesis by simp
qed

lemma rnd_fact_5: "rnd (- (1 / 4503599627370496)) = Fin (- (1 / 4503599627370496))"
proof -
  have "rnd (- (1 / 4503599627370496)) = Fin (- (of_int 4503599627370496 * 2 powi (-104)))"
    by (rule rnd_pos(2) [where e = "-52"]) simp_all
  then show ?thesis by simp
qed

lemma rnd_fact_6: "rnd (1 / 4503599627370496) = Fin (1 / 4503599627370496)"
proof -
  have "rnd (1 / 4503599627370496) = Fin (of_int 4503599627370496 * 2 powi (-104))"
    by (rule rnd_pos(1) [where e = "-52"]) simp_all
  then show ?thesis by simp
qed

lemma rnd_fact_7: "rnd (- (3 / 9007199254740992)) = Fin (- (3 / 9007199254740992))"
proof -
  have "rnd (- (3 / 9007199254740992)) = Fin (- (of_int 6755399441055744 * 2 powi (-104)))"
    by (rule rnd_pos(2) [where e = "-52"]) simp_all
  then show ?thesis by simp
qed

lemma rnd_fact_8: "rnd (3 / 9007199254740992) = Fin (3 / 9007199254740992)"
proof -
  have "rnd (3 / 9007199254740992) = Fin (of_int 6755399441055744 * 2 powi (-104))"
    by (rule rnd_pos(1) [where e = "-52"]) simp_all
  then show ?thesis by simp
qed

lemma rnd_fact_9: "rnd (- (1 / 2251799813685248)) = Fin (- (1 / 2251799813685248))"
proof -
  have "rnd (- (1 / 2251799813685248)) = Fin (- (of_int 4503599627370496 * 2 powi (-103)))"
    by (rule rnd_pos(2) [where e = "-51"]) simp_all
  then show ?thesis by simp
qed

lemma rnd_fact_10: "rnd (1 / 2251799813685248) = Fin (1 / 2251799813685248)"
proof -
  have "rnd (1 / 2251799813685248) = Fin (of_int 4503599627370496 * 2 powi (-103))"
    by (rule rnd_pos(1) [where e = "-51"]) simp_all
  then show ?thesis by simp
qed

lemma rnd_fact_11: "rnd (6004799503160661 / 36028797018963968) = Fin (6004799503160661 / 36028797018963968)"
proof -
  have "rnd (6004799503160661 / 36028797018963968) = Fin (of_int 6004799503160661 * 2 powi (-55))"
    by (rule rnd_pos(1) [where e = "-3"]) simp_all
  then show ?thesis by simp
qed

lemma rnd_fact_12: "rnd (1 / 6) = Fin (6004799503160661 / 36028797018963968)"
proof -
  have "rnd (1 / 6) = Fin (of_int 6004799503160661 * 2 powi (-55))"
    by (rule rnd_pos(1) [where e = "-3"]) simp_all
  then show ?thesis by simp
qed

lemma rnd_fact_13: "rnd (1 / 4) = Fin (1 / 4)"
proof -
  have "rnd (1 / 4) = Fin (of_int 4503599627370496 * 2 powi (-54))"
    by (rule rnd_pos(1) [where e = "-2"]) simp_all
  then show ?thesis by simp
qed

lemma rnd_fact_14: "rnd (6004799503160661 / 18014398509481984) = Fin (6004799503160661 / 18014398509481984)"
proof -
  have "rnd (6004799503160661 / 18014398509481984) = Fin (of_int 6004799503160661 * 2 powi (-54))"
    by (rule rnd_pos(1) [where e = "-2"]) simp_all
  then show ?thesis by simp
qed

lemma rnd_fact_15: "rnd (1 / 3) = Fin (6004799503160661 / 18014398509481984)"
proof -
  have "rnd (1 / 3) = Fin (of_int 6004799503160661 * 2 powi (-54))"
    by (rule rnd_pos(1) [where e = "-2"]) simp_all
  then show ?thesis by simp
qed

lemma rnd_fact_16: "rnd (6004799503160661 / 18014398509481982) = Fin (3002399751580331 / 9007199254740992)"
proof -
  have "rnd (6004799503160661 / 18014398509481982) = Fin (of_int 6004799503160662 * 2 powi (-54))"
    by (rule rnd_pos(1) [where e = "-2"]) simp_all
  then show ?thesis by simp
qed

lemma rnd_fact_17: "rnd (1 / 2) = Fin (1 / 2)"
proof -
  have "rnd (1 / 2) = Fin (of_int 4503599627370496 * 2 powi (-53))"
    by (rule rnd_pos(1) [where e = "-1"]) simp_all
  then show ?thesis by simp
qed

lemma rnd_fact_18: "rnd (3 / 4) = Fin (3 / 4)"
proof -
  have "rnd (3 / 4) = Fin (of_int 6755399441055744 * 2 powi (-53))"
    by (rule rnd_pos(1) [where e = "-1"]) simp_all
  then show ?thesis by simp
qed

lemma rnd_fact_19: "rnd (3752999689475413 / 4503599627370496) = Fin (3752999689475413 / 4503599627370496)"
proof -
  have "rnd (3752999689475413 / 4503599627370496) = Fin (of_int 7505999378950826 * 2 powi (-53))"
    by (rule rnd_pos(1) [where e = "-1"]) simp_all
  then show ?thesis by simp
qed

lemma rnd_fact_20: "rnd (5 / 6) = Fin (7505999378950827 / 9007199254740992)"
proof -
  have "rnd (5 / 6) = Fin (of_int 7505999378950827 * 2 powi (-53))"
    by (rule rnd_pos(1) [where e = "-1"]) simp_all
  then show ?thesis by simp
qed

lemma rnd_fact_21: "rnd (36028797018963965 / 36028797018963968) = Fin (9007199254740991 / 9007199254740992)"
proof -
  have "rnd (36028797018963965 / 36028797018963968) = Fin (of_int 9007199254740991 * 2 powi (-53))"
    by (rule rnd_pos(1) [where e = "-1"]) simp_all
  then show ?thesis by simp
qed

lemma rnd_fact_22: "rnd (1) = Fin 1"
proof -
  have "rnd (1) = Fin (of_int 4503599627370496 * 2 powi (-52))"
    by (rule rnd_pos(1) [where e = "0"]) simp_all
  then show ?thesis by simp
qed

lemma rnd_fact_23: "rnd (5 / 4) = Fin (5 / 4)"
proof -
  have "rnd (5 / 4) = Fin (of_int 5629499534213120 * 2 powi (-52))"
    by (rule rnd_pos(1) [where e = "0"]) simp_all
  then show ?thesis by simp
qed

lemma rnd_fact_24: "rnd (4 / 3) = Fin (6004799503160661 / 4503599627370496)"
proof -
  have "rnd (4 / 3) = Fin (of_int 6004799503160661 * 2 powi (-52))"
    by (rule rnd_pos(1) [where e = "0"]) simp_all
  then show ?thesis by simp
qed

lemma rnd_fact_25: "rnd (12009599006321322 / 9007199254740991) = Fin (3002399751580331 / 2251799813685248)"
proof -
  have "rnd (12009599006321322 / 9007199254740991) = Fin (of_int 6004799503160662 * 2 powi (-52))"
    by (rule rnd_pos(1) [where e = "0"]) simp_all
  then show ?thesis by simp
qed

lemma rnd_fact_26: "rnd (3 / 2) = Fin (3 / 2)"
proof -
  have "rnd (3 / 2) = Fin (of_int 6755399441055744 * 2 powi (-52))"
    by (rule rnd_pos(1) [where e = "0"]) simp_all
  then show ?thesis by simp
qed

lemma rnd_fact_27: "rnd (3752999689475413 / 2251799813685248) = Fin (3752999689475413 / 2251799813685248)"
proof -
  have "rnd (3752999689475413 / 2251799813685248) = Fin (of_int 7505999378950826 * 2 powi (-52))"
    by (rule rnd_pos(1) [where e = "0"]) simp_all
  then show ?thesis by simp
qed

lemma rnd_fact_28: "rnd (30023997515803305 / 18014398509481984) = Fin (3752999689475413 / 2251799813685248)"
proof -
  have "rnd (30023997515803305 / 18014398509481984) = Fin (of_int 7505999378950826 * 2 powi (-52))"
    by (rule rnd_pos(1) [where e = "0"]) simp_all
  then show ?thesis by simp
qed

lemma rnd_fact_29: "rnd (2) = Fin 2"
proof -
  have "rnd (2) = Fin (of_int 4503599627370496 * 2 powi (-51))"
    by (rule rnd_pos(1) [where e = "1"]) simp_all
  then show ?thesis by simp
qed

lemma rnd_fact_30: "rnd (5 / 2) = Fin (5 / 2)"
proof -
  have "rnd (5 / 2) = Fin (of_int 5629499534213120 * 2 powi (-51))"
    by (rule rnd_pos(1) [where e = "1"]) simp_all
  then show ?thesis by simp
qed

lemma rnd_fact_31: "rnd (3) = Fin 3"
proof -
  have "rnd (3) = Fin (of_int 6755399441055744 * 2 powi (-51))"
    by (rule rnd_pos(1) [where e = "1"]) simp_all
  then show ?thesis by simp
qed

lemma rnd_fact_32: "rnd (4) = Fin 4"
proof -
  have "rnd (4) = Fin (of_int 4503599627370496 * 2 powi (-50))"
    by (rule rnd_pos(1) [where e = "2"]) simp_all
  then show ?thesis by simp
qed

lemma rnd_fact_33: "rnd (5) = Fin 5"
proof -
  have "rnd (5) = Fin (of_int 5629499534213120 * 2 powi (-50))"
    by (rule rnd_pos(1) [where e = "2"]) simp_all
  then show ?thesis by simp
qed

lemma rnd_fact_34: "rnd (- (4503599627370495 / 2)) = Fin (- (4503599627370495 / 2))"
proof -
  have "rnd (- (4503599627370495 / 2)) = Fin (- (of_int 9007199254740990 * 2 powi (-2)))"
    by (rule rnd_pos(2) [where e = "50"]) simp_all
  then show ?thesis by simp
qed

lemma rnd_fact_35: "rnd (2251799813685248) = Fin 2251799813685248"
proof -
  have "rnd (2251799813685248) = Fin (of_int 4503599627370496 * 2 powi (-1))"
    by (rule rnd_pos(1) [where e = "51"]) simp_all
  then show ?thesis by simp
qed

lemma rnd_fact_36: "rnd (- 2401919801264264) = Fin (- 2401919801264264)"
proof -
  have "rnd (- 2401919801264264) = Fin (- (of_int 4803839602528528 * 2 powi (-1)))"
    by (rule rnd_pos(2) [where e = "51"]) simp_all
  then show ?thesis by simp
qed

lemma rnd_fact_37: "rnd (- (12009599006321322 / 5)) = Fin (- (4803839602528529 / 2))"
proof -
  have "rnd (- (12009599006321322 / 5)) = Fin (- (of_int 4803839602528529 * 2 powi (-1)))"
    by (rule rnd_pos(2) [where e = "51"]) simp_all
  then show ?thesis by simp
qed

lemma rnd_fact_38: "rnd (12009599006321326 / 5) = Fin 2401919801264265"
proof -
  have "rnd (12009599006321326 / 5) = Fin (of_int 4803839602528530 * 2 powi (-1))"
    by (rule rnd_pos(1) [where e = "51"]) simp_all
  then show ?thesis by simp
qed

lemma rnd_fact_39: "rnd (- (9007199254740988 / 3)) = Fin (- (6004799503160659 / 2))"
proof -
  have "rnd (- (9007199254740988 / 3)) = Fin (- (of_int 6004799503160659 * 2 powi (-1)))"
    by (rule rnd_pos(2) [where e = "51"]) simp_all
  then show ?thesis by simp
qed

lemma rnd_fact_40: "rnd (- 3002399751580330) = Fin (- 3002399751580330)"
proof -
  have "rnd (- 3002399751580330) = Fin (- (of_int 6004799503160660 * 2 powi (-1)))"
    by (rule rnd_pos(2) [where e = "51"]) simp_all
  then show ?thesis by simp
qed

lemma rnd_fact_41: "rnd (3002399751580330) = Fin 3002399751580330"
proof -
  have "rnd (3002399751580330) = Fin (of_int 6004799503160660 * 2 powi (-1))"
    by (rule rnd_pos(1) [where e = "51"]) simp_all
  then show ?thesis by simp
qed

lemma rnd_fact_42: "rnd (- (9007199254740992 / 3)) = Fin (- (6004799503160661 / 2))"
proof -
  have "rnd (- (9007199254740992 / 3)) = Fin (- (of_int 6004799503160661 * 2 powi (-1)))"
    by (rule rnd_pos(2) [where e = "51"]) simp_all
  then show ?thesis by simp
qed

lemma rnd_fact_43: "rnd (9007199254740992 / 3) = Fin (6004799503160661 / 2)"
proof -
  have "rnd (9007199254740992 / 3) = Fin (of_int 6004799503160661 * 2 powi (-1))"
    by (rule rnd_pos(1) [where e = "51"]) simp_all
  then show ?thesis by simp
qed

lemma rnd_fact_44: "rnd (9007199254740994 / 3) = Fin (6004799503160663 / 2)"
proof -
  have "rnd (9007199254740994 / 3) = Fin (of_int 6004799503160663 * 2 powi (-1))"
    by (rule rnd_pos(1) [where e = "51"]) simp_all
  then show ?thesis by simp
qed

lemma rnd_fact_45: "rnd (- (12009599006321318 / 3)) = Fin (- (8006399337547545 / 2))"
proof -
  have "rnd (- (12009599006321318 / 3)) = Fin (- (of_int 8006399337547545 * 2 powi (-1)))"
    by (rule rnd_pos(2) [where e = "51"]) simp_all
  then show ?thesis by simp
qed

lemma rnd_fact_46: "rnd (12009599006321320 / 3) = Fin (8006399337547547 / 2)"
proof -
  have "rnd (12009599006321320 / 3) = Fin (of_int 8006399337547547 * 2 powi (-1))"
    by (rule rnd_pos(1) [where e = "51"]) simp_all
  then show ?thesis by simp
qed

lemma rnd_fact_47: "rnd (4003199668773774) = Fin 4003199668773774"
proof -
  have "rnd (4003199668773774) = Fin (of_int 8006399337547548 * 2 powi (-1))"
    by (rule rnd_pos(1) [where e = "51"]) simp_all
  then show ?thesis by simp
qed

lemma rnd_fact_48: "rnd (- (9007199254740989 / 2)) = Fin (- (9007199254740989 / 2))"
proof -
  have "rnd (- (9007199254740989 / 2)) = Fin (- (of_int 9007199254740989 * 2 powi (-1)))"
    by (rule rnd_pos(2) [where e = "51"]) simp_all
  then show ?thesis by simp
qed

lemma rnd_fact_49: "rnd (- 4503599627370495) = Fin (- 4503599627370495)"
proof -
  have "rnd (- 4503599627370495) = Fin (- (of_int 9007199254740990 * 2 powi (-1)))"
    by (rule rnd_pos(2) [where e = "51"]) simp_all
  then show ?thesis by simp
qed

lemma rnd_fact_50: "rnd (- 4503599627370496) = Fin (- 4503599627370496)"
proof -
  have "rnd (- 4503599627370496) = Fin (- (of_int 4503599627370496 * 2 powi (0)))"
    by (rule rnd_pos(2) [where e = "52"]) simp_all
  then show ?thesis by simp
qed

lemma rnd_fact_51: "rnd (4503599627370496) = Fin 4503599627370496"
proof -
  have "rnd (4503599627370496) = Fin (of_int 4503599627370496 * 2 powi (0))"
    by (rule rnd_pos(1) [where e = "52"]) simp_all
  then show ?thesis by simp
qed

lemma rnd_fact_52: "rnd (9007199254740993 / 2) = Fin 4503599627370496"
proof -
  have "rnd (9007199254740993 / 2) = Fin (of_int 4503599627370496 * 2 powi (0))"
    by (rule rnd_pos(1) [where e = "52"]) simp_all
  then show ?thesis by simp
qed

lemma rnd_fact_53: "rnd (4503599627370497) = Fin 4503599627370497"
proof -
  have "rnd (4503599627370497) = Fin (of_int 4503599627370497 * 2 powi (0))"
    by (rule rnd_pos(1) [where e = "52"]) simp_all
  then show ?thesis by simp
qed

lemma rnd_fact_54: "rnd (- (20282409603651670423947251286015 / 2)) = Fin (- 10141204801825835211973625643008)"
proof -
  have "rnd (- (20282409603651670423947251286015 / 2)) = Fin (- (of_int 9007199254740992 * 2 powi (50)))"
    by (rule rnd_pos(2) [where e = "102"]) simp_all
  then show ?thesis by simp
qed

lemma rnd_fact_55: "rnd (- 10141204801825835211973625643008) = Fin (- 10141204801825835211973625643008)"
proof -
  have "rnd (- 10141204801825835211973625643008) = Fin (- (of_int 4503599627370496 * 2 powi (51)))"
    by (rule rnd_pos(2) [where e = "103"]) simp_all
  then show ?thesis by simp
qed

lemma rnd_fact_56: "rnd (- 20282409603651670423947251286015) = Fin (- 20282409603651670423947251286016)"
proof -
  have "rnd (- 20282409603651670423947251286015) = Fin (- (of_int 9007199254740992 * 2 powi (51)))"
    by (rule rnd_pos(2) [where e = "103"]) simp_all
  then show ?thesis by simp
qed

lemma rnd_fact_57: "rnd (- 20282409603651670423947251286016) = Fin (- 20282409603651670423947251286016)"
proof -
  have "rnd (- 20282409603651670423947251286016) = Fin (- (of_int 4503599627370496 * 2 powi (52)))"
    by (rule rnd_pos(2) [where e = "104"]) simp_all
  then show ?thesis by simp
qed

lemma rnd_fact_58: "rnd (179769313486231590772930519078902473361797697894230657273430081157732675805500963132708477322407536021120113879871393357658789768814416622492847430639474124377767893424865485276302219601246094119453082952085005768838150682342462881473913110540827237163350510684586298239947245938479716304835356329624224137216) = PInf"
  by (rule rnd_overflow(1)) simp

lemmas rnd_facts =
  rnd_fact_1 rnd_fact_2 rnd_fact_3 rnd_fact_4 rnd_fact_5 rnd_fact_6 rnd_fact_7
  rnd_fact_8 rnd_fact_9 rnd_fact_10 rnd_fact_11 rnd_fact_12 rnd_fact_13 rnd_fact_14
  rnd_fact_15 rnd_fact_16 rnd_fact_17 rnd_fact_18 rnd_fact_19 rnd_fact_20 rnd_fact_21
  rnd_fact_22 rnd_fact_23 rnd_fact_24 rnd_fact_25 rnd_fact_26 rnd_fact_27 rnd_fact_28
  rnd_fact_29 rnd_fact_30 rnd_fact_31 rnd_fact_32 rnd_fact_33 rnd_fact_34 rnd_fact_35
  rnd_fact_36 rnd_fact_37 rnd_fact_38 rnd_fact_39 rnd_fact_40 rnd_fact_41 rnd_fact_42
  rnd_fact_43 rnd_fact_44 rnd_fact_45 rnd_fact_46 rnd_fact_47 rnd_fact_48 rnd_fact_49
  rnd_fact_50 rnd_fact_51 rnd_fact_52 rnd_fact_53 rnd_fact_54 rnd_fact_55 rnd_fact_56
  rnd_fact_57 rnd_fact_58

lemmas double_run =
  calcStacked_in_def run_loop_in_def process_file_in_def try_body_in_def normalize_pg_in_def
  fold_pg_in_def init_state_def finalize_in_def trapz_in_def np_binop_def diff_in_def
  pair_sums_in_def vstack_T_def minus_fl_def

section \<open>The exact run as an instance\<close>

lemma exact_arith_sel [simp]:
  "fadd exact_arith = (+)" "fsub exact_arith = (-)" "fmul exact_arith = (*)"
  "fdiv exact_arith = (/)" "fsum exact_arith = sum_list"
  by (simp_all add: exact_arith_def)

lemma diff_in_exact: "diff_in exact_arith = diff"
  by (intro ext) (simp add: diff_in_def diff_def)

lemma pair_sums_in_exact: "pair_sums_in exact_arith = pair_sums"
  by (intro ext) (simp add: pair_sums_in_def pair_sums_def)

lemma trapz_in_exact: "trapz_in exact_arith = trapz"
  by (intro ext)
     (simp add: trapz_in_def trapz_def diff_in_exact pair_sums_in_exact np_mul_def
        split: sum.splits)

lemma trapz_opt_in_exact: "trapz_opt_in exact_arith y x = trapz_opt y x"
  by (cases y; cases x) (simp_all add: trapz_in_exact pair_sums_in_exact)

lemma normalize_pg_in_exact: "normalize_pg_in exact_arith = normalize_pg"
  by (intro ext)
     (simp add: normalize_pg_in_def normalize_pg_def trapz_in_exact split: sum.splits)

lemma fold_pg_in_exact: "fold_pg_in exact_arith = fold_pg"
  by (intro ext)
     (simp add: fold_pg_in_def fold_pg_def np_mul_def np_add_def Let_def
        split: sum.splits option.splits)

lemma try_body_in_exact: "try_body_in exact_arith = try_body"
  by (intro ext)
     (simp add: try_body_in_def try_body_def normalize_pg_in_exact fold_pg_in_exact
        split: sum.splits)

lemma process_file_in_exact: "process_file_in exact_arith = process_file"
  by (intro ext) (simp add: process_file_in_def process_file_def try_body_in_exact)

lemma run_loop_in_exact: "run_loop_in exact_arith = run_loop"
  by (intro ext) (simp add: run_loop_in_def run_loop_def process_file_in_exact)

lemma finalize_in_exact: "finalize_in exact_arith = finalize"
  by (intro ext)
     (simp add: finalize_in_def finalize_def trapz_opt_in_exact
        split: sum.splits option.splits)

lemma calcStacked_in_exact: "calcStacked_in exact_arith = calcStacked"
  by (intro ext)
     (simp add: calcStacked_in_def calcStacked_def run_loop_in_exact finalize_in_exact)

section \<open>Integrals over any arithmetic\<close>

lemma length_diff_in [simp]: "length (diff_in A x) = length x - 1"
  by (simp add: diff_in_def)

lemma length_pair_sums_in [simp]: "length (pair_sums_in A y) = length y - 1"
  by (simp add: pair_sums_in_def)

lemma nth_diff_in: "i < length x - 1 \<Longrightarrow> diff_in A x ! i = fsub A (x ! (i + 1)) (x ! i)"
  by (simp add: diff_in_def nth_tl nth_butlast)

lemma nth_pair_sums_in:
  "i < length y - 1 \<Longrightarrow> pair_sums_in A y ! i = fadd A (y ! (i + 1)) (y ! i)"
  by (simp add: pair_sums_in_def nth_tl nth_butlast)

lemma trapz_in_integral:
  assumes "length y = length x"
  shows "trapz_in A y x = Inr (integral_in A y x)"
proof -
  have "map (\<lambda>v. fdiv A v (Fin 2)) (map2 (fmul A) (diff_in A x) (pair_sums_in A y)) =
        map (\<lambda>i. fdiv A (fmul A (fsub A (x ! (i + 1)) (x ! i))
                            (fadd A (y ! (i + 1)) (y ! i))) (Fin 2)) [0..<length x - 1]"
    using assms by (intro nth_equalityI) (simp_all add: nth_diff_in nth_pair_sums_in)
  then show ?thesis
    using assms by (simp add: trapz_in_def np_binop_same_length integral_in_def)
qed

section \<open>One file at a time, over any arithmetic\<close>







lemma try_body_in_parsed:
  assumes "pg_columns f = Some (x, y)"
  shows "try_body_in A s (snd f) = fold_pg_in A s (x, normalized_in A x y)"
proof -
  from pg_columns_Some [OF assms] obtain arr where a: "snd f = Inr arr"
      "column arr 0 = Inr x" "column arr 1 = Inr y" "length y = length x"
    by blast
  then show ?thesis
    by (simp add: try_body_in_def normalize_pg_in_def trapz_in_integral normalized_in_def)
qed

section \<open>Skipped files, over any arithmetic\<close>




section \<open>Files on a shared grid, over any arithmetic\<close>

lemma length_norm_power_in:
  "on_grid grid f \<Longrightarrow> length (norm_power_in A grid f) = length grid"
  using pg_columns_Some [OF on_grid_columns, of grid f]
  by (auto simp: norm_power_in_def normalized_in_def)

lemma process_file_in_first:
  assumes "on_grid grid f"
  shows "process_file_in A init_state f =
     \<lparr>frecs = Some grid, stacked_and = Some (norm_power_in A grid f),
      stacked_or = Some (norm_power_in A grid f), error_files = []\<rparr>"
  using try_body_in_parsed [OF on_grid_columns [OF assms]]
  by (simp add: process_file_in_def fold_pg_in_def init_state_def norm_power_in_def)

lemma process_file_in_next:
  assumes "on_grid grid f" "length a = length grid" "length p = length grid"
  shows "process_file_in A \<lparr>frecs = Some grid, stacked_and = Some a, stacked_or = Some p,
            error_files = l\<rparr> f =
     \<lparr>frecs = Some grid,
      stacked_and = Some (map (\<lambda>i. fmul A (a ! i) (norm_power_in A grid f ! i)) [0..<length grid]),
      stacked_or = Some (map (\<lambda>i. fadd A (p ! i) (norm_power_in A grid f ! i)) [0..<length grid]),
      error_files = l\<rparr>"
proof -
  have n: "length (normalized_in A grid (power_col f)) = length grid"
    using length_norm_power_in [OF assms(1)] by (simp add: norm_power_in_def)
  show ?thesis
    using try_body_in_parsed [OF on_grid_columns [OF assms(1)]] assms(2,3) n
    by (simp add: process_file_in_def fold_pg_in_def norm_power_in_def
        np_binop_same_length map2_nth_upt)
qed

lemma foldl_in_on_grid:
  assumes "\<forall>f\<in>set fs. on_grid grid f" "length a = length grid" "length p = length grid"
  shows "foldl (process_file_in A) \<lparr>frecs = Some grid, stacked_and = Some a, stacked_or = Some p,
            error_files = l\<rparr> fs =
     \<lparr>frecs = Some grid,
      stacked_and = Some (map (\<lambda>i. foldl (fmul A) (a ! i)
                                 (map (\<lambda>g. norm_power_in A grid g ! i) fs)) [0..<length grid]),
      stacked_or = Some (map (\<lambda>i. foldl (fadd A) (p ! i)
                                (map (\<lambda>g. norm_power_in A grid g ! i) fs)) [0..<length grid]),
      error_files = l\<rparr>"
  using assms
proof (induction fs arbitrary: a p)
  case Nil
  have "map ((!) a) [0..<length a] = a" "map ((!) p) [0..<length p] = p"
    by (rule map_nth)+
  with Nil show ?case by simp
next
  case (Cons f fs)
  have og: "on_grid grid f" and rest: "\<forall>f\<in>set fs. on_grid grid f"
    using Cons.prems(1) by simp_all
  let ?a = "map (\<lambda>i. fmul A (a ! i) (norm_power_in A grid f ! i)) [0..<length grid]"
  let ?p = "map (\<lambda>i. fadd A (p ! i) (norm_power_in A grid f ! i)) [0..<length grid]"
  have "foldl (process_file_in A) \<lparr>frecs = Some grid, stacked_and = Some a,
            stacked_or = Some p, error_files = l\<rparr> (f # fs) =
        foldl (process_file_in A) \<lparr>frecs = Some grid, stacked_and = Some ?a,
            stacked_or = Some ?p, error_files = l\<rparr> fs"
    using process_file_in_next [OF og Cons.prems(2,3)] by simp
  also have "\<dots> = \<lparr>frecs = Some grid,
      stacked_and = Some (map (\<lambda>i. foldl (fmul A) (?a ! i)
                                 (map (\<lambda>g. norm_power_in A grid g ! i) fs)) [0..<length grid]),
      stacked_or = Some (map (\<lambda>i. foldl (fadd A) (?p ! i)
                                (map (\<lambda>g. norm_power_in A grid g ! i) fs)) [0..<length grid]),
      error_files = l\<rparr>"
    by (rule Cons.IH [OF rest]) simp_all
  finally show ?case by simp
qed

lemma run_loop_in_on_grid:
  assumes "\<forall>g\<in>set (f # fs). on_grid grid g"
  shows "run_loop_in A (f # fs) =
     \<lparr>frecs = Some grid, stacked_and = Some (and_curve_in A grid f fs),
      stacked_or = Some (or_curve_in A grid f fs), error_files = []\<rparr>"
proof -
  have og: "on_grid grid f" and rest: "\<forall>f\<in>set fs. on_grid grid f"
    using assms by simp_all
  have n: "length (norm_power_in A grid f) = length grid"
    by (rule length_norm_power_in [OF og])
  show ?thesis
    using foldl_in_on_grid [OF rest n n, of A "[]"]
    by (simp add: run_loop_in_def process_file_in_first [OF og] and_curve_in_def
        or_curve_in_def)
qed

lemma finalize_in_aligned:
  assumes "length a = length grid" "length p = length grid"
  shows "finalize_in A \<lparr>frecs = Some grid, stacked_and = Some a, stacked_or = Some p,
            error_files = l\<rparr> = Inr (stacked_table_in A grid a p)"
  using assms by (simp add: finalize_in_def trapz_in_integral vstack_T_def stacked_table_in_def)

lemma calcStacked_in_on_grid:
  assumes "\<forall>g\<in>set (f # fs). on_grid grid g"
  shows "calcStacked_in A (f # fs) =
     ([], Inr (stacked_table_in A grid (and_curve_in A grid f fs) (or_curve_in A grid f fs)))"
  by (simp add: calcStacked_in_def run_loop_in_on_grid [OF assms] finalize_in_aligned
      and_curve_in_def or_curve_in_def)

lemma table_col_stacked_table_in:
  assumes "length a = length grid" "length p = length grid"
  shows "table_col (stacked_table_in A grid a p) 0 = grid"
    and "table_col (stacked_table_in A grid a p) 1 = map (\<lambda>v. fdiv A v (integral_in A a grid)) a"
    and "table_col (stacked_table_in A grid a p) 2 = map (\<lambda>v. fdiv A v (integral_in A p grid)) p"
  using assms by (auto simp: table_col_def stacked_table_in_def intro!: nth_equalityI)

section \<open>The loop invariant, over any arithmetic\<close>







section \<open>Laws of the double arithmetic\<close>

lemma double_arith_sel [simp]:
  "fadd double_arith = (\<lambda>a b. round_fl (a + b))" "fsub double_arith = (\<lambda>a b. round_fl (a - b))"
  "fmul double_arith = (\<lambda>a b. round_fl (a * b))" "fdiv double_arith = (\<lambda>a b. round_fl (a / b))"
  "fsum double_arith = foldl (\<lambda>a b. round_fl (a + b)) (Fin 0)"
  by (simp_all add: double_arith_def)

lemma double_arith_commutes:
  "fadd double_arith a b = fadd double_arith b a" "fmul double_arith a b = fmul double_arith b a"
  by (simp_all add: add.commute mult.commute)



section \<open>Special values in the accumulators\<close>



lemma poisoned_error_files [simp]: "poisoned (s\<lparr>error_files := l\<rparr>) = poisoned s"
  by (simp add: poisoned_def split: option.splits)





section \<open>Rows of the table\<close>





section \<open>Properties of the run\<close>

text \<open>
  C1. For a non-empty list of files that all parse and share one frequency grid, in
  every arithmetic (the rounding one included) the run logs nothing and returns a table
  with one row per grid index \<open>i\<close>: the grid value; the product, taken from the first
  file on in discovery order, of each file's power at \<open>i\<close> divided by the trapezoidal
  integral of its power, that product divided by the integral of the product curve over
  the grid; and the same with the sum in place of the product.
\<close>

theorem stacked_is_product_and_sum:
  assumes "\<forall>g\<in>set (f # fs). on_grid grid g"
  shows "\<exists>T. calcStacked_in A (f # fs) = ([], Inr T) \<and> length T = length grid \<and>
           (\<forall>i<length grid. T ! i =
              [grid ! i,
               fdiv A
                 (foldl (fmul A) (fdiv A (power_col f ! i) (integral_in A (power_col f) grid))
                    (map (\<lambda>g. fdiv A (power_col g ! i) (integral_in A (power_col g) grid)) fs))
                 (integral_in A (and_curve_in A grid f fs) grid),
               fdiv A
                 (foldl (fadd A) (fdiv A (power_col f ! i) (integral_in A (power_col f) grid))
                    (map (\<lambda>g. fdiv A (power_col g ! i) (integral_in A (power_col g) grid)) fs))
                 (integral_in A (or_curve_in A grid f fs) grid)])"
proof -
  have np: "norm_power_in A grid g ! i =
      fdiv A (power_col g ! i) (integral_in A (power_col g) grid)"
    if "g \<in> set (f # fs)" "i < length grid" for g i
  proof -
    have "on_grid grid g"
      using assms that(1) by blast
    from length_norm_power_in [OF this, of A] have "length (power_col g) = length grid"
      by (simp add: norm_power_in_def normalized_in_def)
    then show ?thesis
      using that(2) by (simp add: norm_power_in_def normalized_in_def)
  qed
  have rest: "map (\<lambda>g. norm_power_in A grid g ! i) fs =
      map (\<lambda>g. fdiv A (power_col g ! i) (integral_in A (power_col g) grid)) fs"
    if "i < length grid" for i
    by (rule map_cong [OF refl]) (simp add: np that)
  have "stacked_table_in A grid (and_curve_in A grid f fs) (or_curve_in A grid f fs) ! i =
      [grid ! i,
       fdiv A
         (foldl (fmul A) (fdiv A (power_col f ! i) (integral_in A (power_col f) grid))
            (map (\<lambda>g. fdiv A (power_col g ! i) (integral_in A (power_col g) grid)) fs))
         (integral_in A (and_curve_in A grid f fs) grid),
       fdiv A
         (foldl (fadd A) (fdiv A (power_col f ! i) (integral_in A (power_col f) grid))
            (map (\<lambda>g. fdiv A (power_col g ! i) (integral_in A (power_col g) grid)) fs))
         (integral_in A (or_curve_in A grid f fs) grid)]"
    if "i < length grid" for i
  proof -
    have "and_curve_in A grid f fs ! i =
        foldl (fmul A) (fdiv A (power_col f ! i) (integral_in A (power_col f) grid))
          (map (\<lambda>g. fdiv A (power_col g ! i) (integral_in A (power_col g) grid)) fs)"
      using that by (simp add: and_curve_in_def rest np)
    moreover have "or_curve_in A grid f fs ! i =
        foldl (fadd A) (fdiv A (power_col f ! i) (integral_in A (power_col f) grid))
          (map (\<lambda>g. fdiv A (power_col g ! i) (integral_in A (power_col g) grid)) fs)"
      using that by (simp add: or_curve_in_def rest np)
    ultimately show ?thesis
      using that by (simp add: stacked_table_in_def)
  qed
  then show ?thesis
    by (simp add: calcStacked_in_on_grid [OF assms] stacked_table_in_def)
qed

theorem stacked_is_product_and_sum_witness:
  "calcStacked_in double_arith [pg_ones, pg_twos] =
     ([], Inr [[Fin 1, Fin (1 / 2), Fin (1 / 2)],
      [Fin 2, Fin (1 / 2), Fin (1 / 2)],
      [Fin 3, Fin (1 / 2), Fin (1 / 2)]])"
proof -
  let ?g = "[Fin 1, Fin 2, Fin 3]"
  have og: "\<forall>g\<in>set [pg_ones, pg_twos]. on_grid ?g g"
    by (simp add: on_grid_def pg_columns_def pg_ones_def pg_twos_def)
  have pc: "power_col pg_ones = [Fin 1, Fin 1, Fin 1]" "power_col pg_twos = [Fin 2, Fin 2, Fin 2]"
    by (simp_all add: power_col_def pg_columns_def pg_ones_def pg_twos_def)
  have int: "integral_in double_arith [Fin 1, Fin 1, Fin 1] ?g = Fin 2"
    "integral_in double_arith [Fin 2, Fin 2, Fin 2] ?g = Fin 4"
    using rnd_facts by (simp_all add: integral_in_def minus_fl_def upt_rec)
  have ac: "and_curve_in double_arith ?g pg_ones [pg_twos] = [Fin (1 / 4), Fin (1 / 4), Fin (1 / 4)]"
    and oc: "or_curve_in double_arith ?g pg_ones [pg_twos] = [Fin 1, Fin 1, Fin 1]"
    using rnd_facts
    by (simp_all add: and_curve_in_def or_curve_in_def norm_power_in_def normalized_in_def
        pc int upt_rec)
  have int2: "integral_in double_arith [Fin (1 / 4), Fin (1 / 4), Fin (1 / 4)] ?g = Fin (1 / 2)"
    "integral_in double_arith [Fin 1, Fin 1, Fin 1] ?g = Fin 2"
    using rnd_facts by (simp_all add: integral_in_def minus_fl_def upt_rec)
  from stacked_is_product_and_sum [OF og, of double_arith] obtain T where
    run: "calcStacked_in double_arith [pg_ones, pg_twos] = ([], Inr T)"
    and len: "length T = length ?g"
    and rows: "\<forall>i<length ?g. T ! i =
        [?g ! i,
         fdiv double_arith
           (foldl (fmul double_arith)
              (fdiv double_arith (power_col pg_ones ! i)
                 (integral_in double_arith (power_col pg_ones) ?g))
              (map (\<lambda>g. fdiv double_arith (power_col g ! i)
                      (integral_in double_arith (power_col g) ?g)) [pg_twos]))
           (integral_in double_arith (and_curve_in double_arith ?g pg_ones [pg_twos]) ?g),
         fdiv double_arith
           (foldl (fadd double_arith)
              (fdiv double_arith (power_col pg_ones ! i)
                 (integral_in double_arith (power_col pg_ones) ?g))
              (map (\<lambda>g. fdiv double_arith (power_col g ! i)
                      (integral_in double_arith (power_col g) ?g)) [pg_twos]))
           (integral_in double_arith (or_curve_in double_arith ?g pg_ones [pg_twos]) ?g)]"
    by blast
  have "T ! 0 = [Fin 1, Fin (1 / 2), Fin (1 / 2)]" "T ! 1 = [Fin 2, Fin (1 / 2), Fin (1 / 2)]"
    "T ! 2 = [Fin 3, Fin (1 / 2), Fin (1 / 2)]"
    using rows rnd_facts by (simp_all add: pc int ac oc int2)
  then have "T = [[Fin 1, Fin (1 / 2), Fin (1 / 2)],
      [Fin 2, Fin (1 / 2), Fin (1 / 2)],
      [Fin 3, Fin (1 / 2), Fin (1 / 2)]]"
    using len by (auto intro!: nth_equalityI simp: less_Suc_eq numeral_3_eq_3 numeral_2_eq_2)
  with run show ?thesis by simp
qed

text \<open>
  C2, amended. For a run over one file that parses into an array of at least two
  columns, in every arithmetic the first column of the table is the frequency column,
  the AND column and the OR column are equal, and they hold the normalized power (the
  power divided by its trapezoidal integral, line 86) divided once more by the
  trapezoidal integral of the normalized power itself (lines 97 and 98).
\<close>

theorem single_file_curves:
  assumes "pg_columns f = Some (x, y)"
  shows "\<exists>T. calcStacked_in A [f] = ([], Inr T) \<and> table_col T 0 = x \<and>
           table_col T 1 = table_col T 2 \<and>
           table_col T 1 =
             map (\<lambda>v. fdiv A v (integral_in A (normalized_in A x y) x)) (normalized_in A x y)"
proof -
  have og: "\<forall>g\<in>set [f]. on_grid x g" and pc: "power_col f = y"
    using assms by (simp_all add: on_grid_def power_col_def)
  have len: "length (norm_power_in A x f) = length x"
    using og by (simp add: length_norm_power_in)
  have ac: "and_curve_in A x f [] = norm_power_in A x f"
    and oc: "or_curve_in A x f [] = norm_power_in A x f"
    using len map_nth [of "norm_power_in A x f"]
    by (simp_all add: and_curve_in_def or_curve_in_def)
  let ?T = "stacked_table_in A x (norm_power_in A x f) (norm_power_in A x f)"
  have run: "calcStacked_in A [f] = ([], Inr ?T)"
    using calcStacked_in_on_grid [OF og, of A] by (simp add: ac oc)
  have np: "norm_power_in A x f = normalized_in A x y"
    by (simp add: norm_power_in_def pc)
  note cols = table_col_stacked_table_in [OF len len]
  have "table_col ?T 0 = x"
    by (rule cols(1))
  moreover have "table_col ?T 1 = table_col ?T 2"
    by (simp only: cols(2,3))
  moreover have "table_col ?T 1 =
       map (\<lambda>v. fdiv A v (integral_in A (normalized_in A x y) x)) (normalized_in A x y)"
    using cols(2) by (simp only: np)
  ultimately show ?thesis using run by blast
qed

theorem single_file_curves_witness:
  "\<exists>T. calcStacked_in double_arith [pg_peak] = ([], Inr T) \<and>
     table_col T 0 = [Fin 1, Fin 2, Fin 3] \<and> table_col T 1 = table_col T 2 \<and>
     table_col T 1 = [Fin 0, Fin 0, Fin 2]"
proof -
  let ?g = "[Fin 1, Fin 2, Fin 3]"
  have cols: "pg_columns pg_peak = Some (?g, [Fin 0, Fin 0, Fin 4])"
    by (simp add: pg_columns_def pg_peak_def)
  have n: "normalized_in double_arith ?g [Fin 0, Fin 0, Fin 4] = [Fin 0, Fin 0, Fin 2]"
    using rnd_facts by (simp add: normalized_in_def integral_in_def minus_fl_def upt_rec)
  have int: "integral_in double_arith [Fin 0, Fin 0, Fin 2] ?g = Fin 1"
    using rnd_facts by (simp add: integral_in_def minus_fl_def upt_rec)
  from single_file_curves [OF cols, of double_arith] obtain T where
    T: "calcStacked_in double_arith [pg_peak] = ([], Inr T)" "table_col T 0 = ?g"
      "table_col T 1 = table_col T 2"
      "table_col T 1 =
         map (\<lambda>v. fdiv double_arith v
                (integral_in double_arith (normalized_in double_arith ?g [Fin 0, Fin 0, Fin 4]) ?g))
           (normalized_in double_arith ?g [Fin 0, Fin 0, Fin 4])"
    by blast
  from T(4) have "table_col T 1 = [Fin 0, Fin 0, Fin 2]"
    using rnd_facts by (simp add: n int del: One_nat_def)
  with T show ?thesis by blast
qed

text \<open>
  C2 as stated fails in double arithmetic, where the integral of the normalized power
  need not be 1. For the powers \<open>[0, 1, 4]\<close> it is \<open>1 - 2\<^sup>-\<^sup>5\<^sup>3\<close> and the columns differ from
  the normalized power in the last place; for the powers of \<open>pg_cancel\<close>, which nearly
  cancel, it is \<open>5/4\<close> and the columns are the normalized power divided by \<open>5/4\<close>.
\<close>

theorem single_file_counterexample:
  "trapz_in double_arith [Fin 0, Fin 1, Fin 4] [Fin 1, Fin 2, Fin 3] = Inr (Fin 3) \<and>
   map (\<lambda>v. fdiv double_arith v (Fin 3)) [Fin 0, Fin 1, Fin 4] =
     [Fin 0, Fin (6004799503160661 / 18014398509481984), Fin (6004799503160661 / 4503599627370496)] \<and>
   calcStacked_in double_arith [pg_ramp] =
     ([], Inr [[Fin 1, Fin 0, Fin 0],
      [Fin 2, Fin (3002399751580331 / 9007199254740992), Fin (3002399751580331 / 9007199254740992)],
      [Fin 3, Fin (3002399751580331 / 2251799813685248), Fin (3002399751580331 / 2251799813685248)]]) \<and>
   table_col [[Fin 1, Fin 0, Fin 0],
      [Fin 2, Fin (3002399751580331 / 9007199254740992), Fin (3002399751580331 / 9007199254740992)],
      [Fin 3, Fin (3002399751580331 / 2251799813685248), Fin (3002399751580331 / 2251799813685248)]] 1 \<noteq>
     [Fin 0, Fin (6004799503160661 / 18014398509481984), Fin (6004799503160661 / 4503599627370496)] \<and>
   trapz_in double_arith [Fin (1 - 1 / 2 ^ 52), Fin (- 1 - 1 / 2 ^ 52), Fin 1]
     [Fin 1, Fin 2, Fin 3] = Inr (Fin (- (3 / 2 ^ 53))) \<and>
   map (\<lambda>v. fdiv double_arith v (Fin (- (3 / 2 ^ 53))))
     [Fin (1 - 1 / 2 ^ 52), Fin (- 1 - 1 / 2 ^ 52), Fin 1] =
     [Fin (- 3002399751580330), Fin (6004799503160663 / 2), Fin (- (6004799503160661 / 2))] \<and>
   calcStacked_in double_arith [pg_cancel] =
     ([], Inr [[Fin 1, Fin (- 2401919801264264), Fin (- 2401919801264264)],
      [Fin 2, Fin 2401919801264265, Fin 2401919801264265],
      [Fin 3, Fin (- (4803839602528529 / 2)), Fin (- (4803839602528529 / 2))]]) \<and>
   table_col [[Fin 1, Fin (- 2401919801264264), Fin (- 2401919801264264)],
      [Fin 2, Fin 2401919801264265, Fin 2401919801264265],
      [Fin 3, Fin (- (4803839602528529 / 2)), Fin (- (4803839602528529 / 2))]] 1 \<noteq>
     [Fin (- 3002399751580330), Fin (6004799503160663 / 2), Fin (- (6004799503160661 / 2))]"
  using rnd_facts by (simp add: pg_ramp_def pg_cancel_def double_run table_col_def upt_rec)

text \<open>
  C3. The scenario of the three files on the grid \<open>[1, 2, 3]\<close>: the normalized powers
  are \<open>[1/2, 1/2, 1/2]\<close>, \<open>[1/2, 1/2, 1/2]\<close> and \<open>[0, 0, 2]\<close>; the loop ends with the AND
  accumulator \<open>[0, 0, 1/2]\<close>, of integral \<open>1/4\<close>, and the OR accumulator \<open>[1, 1, 3]\<close>, of
  integral \<open>3\<close>; the table has the AND column \<open>[0, 0, 2]\<close> and the OR column
  \<open>[1/3, 1/3, 1]\<close>.
\<close>

theorem three_file_scenario:
  "map (\<lambda>f. map_sum id normalize_pg (snd f)) [pg_ones, pg_twos, pg_peak] =
     [Inr (Inr ([Fin 1, Fin 2, Fin 3], [Fin (1 / 2), Fin (1 / 2), Fin (1 / 2)])),
      Inr (Inr ([Fin 1, Fin 2, Fin 3], [Fin (1 / 2), Fin (1 / 2), Fin (1 / 2)])),
      Inr (Inr ([Fin 1, Fin 2, Fin 3], [Fin 0, Fin 0, Fin 2]))] \<and>
   run_loop [pg_ones, pg_twos, pg_peak] =
     \<lparr>frecs = Some [Fin 1, Fin 2, Fin 3], stacked_and = Some [Fin 0, Fin 0, Fin (1 / 2)],
      stacked_or = Some [Fin 1, Fin 1, Fin 3], error_files = []\<rparr> \<and>
   trapz [Fin 0, Fin 0, Fin (1 / 2)] [Fin 1, Fin 2, Fin 3] = Inr (Fin (1 / 4)) \<and>
   trapz [Fin 1, Fin 1, Fin 3] [Fin 1, Fin 2, Fin 3] = Inr (Fin 3) \<and>
   calcStacked [pg_ones, pg_twos, pg_peak] =
     ([], Inr [[Fin 1, Fin 0, Fin (1 / 3)], [Fin 2, Fin 0, Fin (1 / 3)],
               [Fin 3, Fin 2, Fin 1]])"
  by (simp add: pg_ones_def pg_twos_def pg_peak_def calcStacked_def run_loop_def
      process_file_def try_body_def normalize_pg_def fold_pg_def init_state_def finalize_def
      trapz_def np_mul_def np_add_def np_binop_def diff_def pair_sums_def vstack_T_def
      minus_fl_def zero_fl_def upt_rec)




text \<open>
  C5, amended. In every arithmetic whose addition and multiplication are commutative,
  as those of doubles are, exchanging the first two of a list of files that parse on one
  grid changes neither the table nor the log.
\<close>

theorem order_independent:
  assumes "\<forall>a b. fadd A a b = fadd A b a" and "\<forall>a b. fmul A a b = fmul A b a"
    and "\<forall>h\<in>set (f # g # rest). on_grid grid h"
  shows "calcStacked_in A (g # f # rest) = calcStacked_in A (f # g # rest)"
proof -
  have og: "\<forall>h\<in>set (g # f # rest). on_grid grid h"
    using assms(3) by auto
  have "and_curve_in A grid g (f # rest) = and_curve_in A grid f (g # rest)"
    using assms(2) by (simp add: and_curve_in_def)
  moreover have "or_curve_in A grid g (f # rest) = or_curve_in A grid f (g # rest)"
    using assms(1) by (simp add: or_curve_in_def)
  ultimately show ?thesis
    by (simp add: calcStacked_in_on_grid [OF assms(3)] calcStacked_in_on_grid [OF og])
qed

theorem order_independent_witness:
  "calcStacked_in double_arith [pg_twos, pg_ones, pg_peak] =
   calcStacked_in double_arith [pg_ones, pg_twos, pg_peak]"
  by (rule order_independent [where grid = "[Fin 1, Fin 2, Fin 3]"])
     (simp_all add: add.commute mult.commute on_grid_def pg_columns_def pg_ones_def pg_twos_def
        pg_peak_def)

text \<open>
  C5 as stated fails in double arithmetic for other permutations. After \<open>pg_up\<close>, the
  files \<open>pg_down\<close> and \<open>pg_ones\<close> give the OR column \<open>[1/6, 5/6, 5/6]\<close> (rounded) in this
  order and \<open>[0, 1, 0]\<close> in the other.
\<close>

theorem order_counterexample:
  "calcStacked_in double_arith [pg_up, pg_down, pg_ones] =
     ([], Inr [[Fin 1, Fin (1 / 2), Fin (6004799503160661 / 36028797018963968)],
      [Fin 2, Fin (1 / 2), Fin (7505999378950827 / 9007199254740992)],
      [Fin 3, Fin (1 / 2), Fin (6004799503160661 / 36028797018963968)]]) \<and>
   calcStacked_in double_arith [pg_up, pg_ones, pg_down] =
     ([], Inr [[Fin 1, Fin (1 / 2), Fin 0],
      [Fin 2, Fin (1 / 2), Fin 1],
      [Fin 3, Fin (1 / 2), Fin 0]]) \<and>
   calcStacked_in double_arith [pg_up, pg_ones, pg_down] \<noteq>
   calcStacked_in double_arith [pg_up, pg_down, pg_ones]"
  using rnd_facts by (simp add: pg_up_def pg_down_def pg_ones_def double_run upt_rec)

text \<open>
  C6, as the code has it. When no file parses into a 2-d array with two columns (in
  particular for an empty directory) the accumulators are still \<open>None\<close> at line 97 and
  the run ends with the \<open>IndexError\<close> that \<open>np.trapz\<close> raises on them; no table is
  produced, and every file is in the error log.
\<close>

theorem no_input_fails_with_index_error:
  assumes "\<forall>f\<in>set files. pg_columns f = None"
  shows "snd (calcStacked files) = Inl IndexError \<and>
         map fst (fst (calcStacked files)) = map fst files"
proof -
  from foldl_none_loaded [OF assms, of init_state] obtain l where
    "run_loop files = init_state\<lparr>error_files := error_files init_state @ l\<rparr>"
    "map fst l = map fst files"
    by (auto simp: run_loop_def)
  then show ?thesis
    by (simp add: calcStacked_def Let_def finalize_def init_state_def)
qed

theorem no_input_fails_with_index_error_witness:
  "snd (calcStacked [pg_broken, pg_row]) = Inl IndexError \<and>
   map fst (fst (calcStacked [pg_broken, pg_row])) = map fst [pg_broken, pg_row]"
  by (rule no_input_fails_with_index_error)
     (simp add: pg_columns_def pg_broken_def pg_row_def)

text \<open>
  C6, as stated, fails for the empty directory: the exception is an \<open>IndexError\<close>, not
  an exception of a class \<open>NoValidInputError\<close>.
\<close>

theorem no_input_counterexample:
  "snd (calcStacked []) = Inl IndexError \<and> exn_class IndexError \<noteq> ''NoValidInputError''"
  by (simp add: calcStacked_def run_loop_def finalize_def init_state_def)






text \<open>
  C9. With arrays of the shape \<open>np.genfromtxt\<close> returns, after every file of the run
  (whether it was folded or skipped) the three accumulators are unset together or set
  with one common length; and once a grid is set the run returns the table with one
  row per grid index, holding the frequency, the renormalized AND value and the
  renormalized OR value, in this order.
\<close>

theorem accumulators_stay_aligned:
  assumes "\<forall>f\<in>set files. genfromtxt_shape (snd f)"
  shows "(\<forall>k\<le>length files. aligned (run_loop (take k files))) \<and>
         (\<forall>x. frecs (run_loop files) = Some x \<longrightarrow>
            (\<exists>a p. stacked_and (run_loop files) = Some a \<and>
               stacked_or (run_loop files) = Some p \<and>
               length a = length x \<and> length p = length x \<and>
               snd (calcStacked files) =
                 Inr (map (\<lambda>i. [x ! i, a ! i / integral a x, p ! i / integral p x])
                        [0..<length x])))"
proof -
  have "aligned (run_loop (take k files))" for k
  proof (rule run_loop_aligned)
    show "\<forall>f\<in>set (take k files). genfromtxt_shape (snd f)"
      using assms by (meson in_set_takeD)
  qed
  moreover have "\<exists>a p. stacked_and (run_loop files) = Some a \<and>
       stacked_or (run_loop files) = Some p \<and> length a = length x \<and> length p = length x \<and>
       snd (calcStacked files) =
         Inr (map (\<lambda>i. [x ! i, a ! i / integral a x, p ! i / integral p x]) [0..<length x])"
    if "frecs (run_loop files) = Some x" for x
    using finalize_of_aligned [OF run_loop_aligned [OF assms] that]
    by (simp add: calcStacked_def Let_def stacked_table_def)
  ultimately show ?thesis by blast
qed

theorem accumulators_stay_aligned_witness:
  "aligned (run_loop [pg_broken, pg_ones, pg_short]) \<and>
   aligned (run_loop [pg_broken, pg_ones, pg_short, pg_twos]) \<and>
   snd (calcStacked [pg_broken, pg_ones, pg_short, pg_twos]) =
     Inr [[Fin 1, Fin (1 / 2), Fin (1 / 2)], [Fin 2, Fin (1 / 2), Fin (1 / 2)],
          [Fin 3, Fin (1 / 2), Fin (1 / 2)]]"
proof -
  let ?fs = "[pg_broken, pg_ones, pg_short, pg_twos]"
  have shape: "\<forall>f\<in>set ?fs. genfromtxt_shape (snd f)"
    by (simp add: pg_broken_def pg_ones_def pg_short_def pg_twos_def)
  have loop: "run_loop ?fs =
     \<lparr>frecs = Some [Fin 1, Fin 2, Fin 3],
      stacked_and = Some [Fin (1 / 4), Fin (1 / 4), Fin (1 / 4)],
      stacked_or = Some [Fin 1, Fin 1, Fin 1],
      error_files = [(''broken.dat'', LoadFailure ''ValueError'' ''Some errors were detected''),
                     (''short.dat'', ValueError)]\<rparr>"
    by (simp add: pg_broken_def pg_ones_def pg_short_def pg_twos_def run_loop_def
        process_file_def try_body_def normalize_pg_def fold_pg_def init_state_def trapz_def
        np_mul_def np_add_def np_binop_def diff_def pair_sums_def minus_fl_def zero_fl_def)
  have int: "integral [Fin (1 / 4), Fin (1 / 4), Fin (1 / 4)] [Fin 1, Fin 2, Fin 3] = Fin (1 / 2)"
    "integral [Fin 1, Fin 1, Fin 1] [Fin 1, Fin 2, Fin 3] = Fin 2"
    by (simp_all add: integral_def minus_fl_def zero_fl_def upt_rec)
  note inst = accumulators_stay_aligned [OF shape]
  have every: "\<forall>k\<le>length ?fs. aligned (run_loop (take k ?fs))"
    using inst by (rule conjunct1)
  have a: "aligned (run_loop [pg_broken, pg_ones, pg_short])" "aligned (run_loop ?fs)"
    using every [rule_format, of 3] every [rule_format, of 4]
    by (simp_all add: numeral_3_eq_3)
  have "frecs (run_loop ?fs) = Some [Fin 1, Fin 2, Fin 3]"
    by (simp add: loop)
  with inst have "\<exists>a p. stacked_and (run_loop ?fs) = Some a \<and>
      stacked_or (run_loop ?fs) = Some p \<and>
      length a = length [Fin 1, Fin 2, Fin 3] \<and> length p = length [Fin 1, Fin 2, Fin 3] \<and>
      snd (calcStacked ?fs) =
        Inr (map (\<lambda>i. [[Fin 1, Fin 2, Fin 3] ! i, a ! i / integral a [Fin 1, Fin 2, Fin 3],
                        p ! i / integral p [Fin 1, Fin 2, Fin 3]])
               [0..<length [Fin 1, Fin 2, Fin 3]])"
    by blast
  then have "snd (calcStacked ?fs) =
      Inr (map (\<lambda>i. [[Fin 1, Fin 2, Fin 3] ! i,
            [Fin (1 / 4), Fin (1 / 4), Fin (1 / 4)] ! i /
              integral [Fin (1 / 4), Fin (1 / 4), Fin (1 / 4)] [Fin 1, Fin 2, Fin 3],
            [Fin 1, Fin 1, Fin 1] ! i / integral [Fin 1, Fin 1, Fin 1] [Fin 1, Fin 2, Fin 3]])
          [0..<length [Fin 1, Fin 2, Fin 3]])"
    unfolding loop by auto
  then have "snd (calcStacked ?fs) =
     Inr [[Fin 1, Fin (1 / 2), Fin (1 / 2)], [Fin 2, Fin (1 / 2), Fin (1 / 2)],
          [Fin 3, Fin (1 / 2), Fin (1 / 2)]]"
    by (simp add: int upt_rec)
  with a show ?thesis by simp
qed

text \<open>
  C10. Whenever the processing of a file raises, at whatever step, the state after the
  iteration is the state before it with the pair of the file name and the exception
  appended to \<open>error_files\<close>: the three accumulators are untouched, and in particular
  \<open>stacked_and\<close> is never updated without \<open>stacked_or\<close>.
\<close>

theorem per_file_atomic:
  "snd (try_body (run_loop files) (snd f)) = Some e \<Longrightarrow>
   process_file (run_loop files) f =
     (run_loop files)\<lparr>error_files := error_files (run_loop files) @ [(fst f, e)]\<rparr>"
  using try_body_cases [OF acc_paired_run_loop, of files "snd f"]
  by (auto simp: process_file_def)

theorem per_file_atomic_witness:
  "snd (try_body (run_loop [pg_ones]) (snd pg_short)) = Some ValueError \<and>
   process_file (run_loop [pg_ones]) pg_short =
     (run_loop [pg_ones])\<lparr>error_files :=
        error_files (run_loop [pg_ones]) @ [(fst pg_short, ValueError)]\<rparr>"
proof -
  have raised: "snd (try_body (run_loop [pg_ones]) (snd pg_short)) = Some ValueError"
    by (simp add: pg_ones_def pg_short_def run_loop_def process_file_def try_body_def
        normalize_pg_def fold_pg_def init_state_def trapz_def np_mul_def np_binop_def
        diff_def pair_sums_def minus_fl_def zero_fl_def)
  from raised per_file_atomic [OF raised] show ?thesis
    by (rule conjI)
qed

end
